theory Spec2Isabelle
  imports Main "HOL-Library.Word"
begin

unbundle bit_operations_syntax

section \<open>Dimension bookkeeping of dynamic-rank views of Sacado Fad types\<close>

text \<open>
  A shallow embedding of \<^verbatim>\<open>packages/sacado/src/Kokkos_DynRankView_Fad.hpp\<close>:
  the rank computation and layout construction of
  \<^verbatim>\<open>DynRankDimTraits<ViewSpecializeSacadoFad>\<close>, the rank-indexed transfer rules
  \<^verbatim>\<open>AssignFadDimStride\<close> and \<^verbatim>\<open>AssignDim\<close>, the subview and assignment mappings,
  and the view-to-view \<^verbatim>\<open>deep_copy\<close> dispatch.
\<close>

subsection \<open>Extents and the sentinel\<close>

text \<open>\<^verbatim>\<open>size_t\<close> is a 64-bit unsigned integer; \<^verbatim>\<open>unspecified = ~size_t(0)\<close>.\<close>

type_synonym size_t = "64 word"

definition unspecified :: size_t where
  "unspecified = NOT 0"

subsection \<open>Layouts\<close>

text \<open>
  \<^verbatim>\<open>Kokkos::LayoutLeft\<close> and \<^verbatim>\<open>Kokkos::LayoutRight\<close> carry an array
  \<^verbatim>\<open>size_t dimension[8]\<close>; \<^verbatim>\<open>Kokkos::LayoutStride\<close> carries in addition
  \<^verbatim>\<open>size_t stride[8]\<close>. The arrays are lists; the array type fixes their length at 8,
  which the theorems below assume of their inputs.
\<close>

record Layout =
  dimension :: "size_t list"

record LayoutStride = Layout +
  stride :: "size_t list"

text \<open>
  Modelled from the spec: the constructors of the layout classes, which are declared in
  Kokkos, outside this file. A layout descriptor pairs a dimension vector of eight extents
  with, for the strided layout, a stride vector of eight strides; the constructors, as
  \<^verbatim>\<open>createLayout\<close> calls them, store the eight extents (and the eight strides,
  interleaved in the argument list) into the arrays in argument order.
\<close>

definition Layout_ctor ::
  "size_t \<Rightarrow> size_t \<Rightarrow> size_t \<Rightarrow> size_t \<Rightarrow> size_t \<Rightarrow> size_t \<Rightarrow> size_t \<Rightarrow> size_t \<Rightarrow> Layout" where
  "Layout_ctor N0 N1 N2 N3 N4 N5 N6 N7 = \<lparr>dimension = [N0, N1, N2, N3, N4, N5, N6, N7]\<rparr>"

definition LayoutStride_ctor ::
  "size_t \<Rightarrow> size_t \<Rightarrow> size_t \<Rightarrow> size_t \<Rightarrow> size_t \<Rightarrow> size_t \<Rightarrow> size_t \<Rightarrow> size_t \<Rightarrow>
   size_t \<Rightarrow> size_t \<Rightarrow> size_t \<Rightarrow> size_t \<Rightarrow> size_t \<Rightarrow> size_t \<Rightarrow> size_t \<Rightarrow> size_t \<Rightarrow> LayoutStride" where
  "LayoutStride_ctor N0 S0 N1 S1 N2 S2 N3 S3 N4 S4 N5 S5 N6 S6 N7 S7 =
     \<lparr>dimension = [N0, N1, N2, N3, N4, N5, N6, N7],
      stride = [S0, S1, S2, S3, S4, S5, S6, S7]\<rparr>"

subsection \<open>computeRank\<close>

text \<open>
  The source comment: ``For views of Fad, the rank is one less than the rank determined by
  the nonzero dimension args''. The nested conditional is transcribed branch by branch.
\<close>

definition computeRank ::
  "size_t \<Rightarrow> size_t \<Rightarrow> size_t \<Rightarrow> size_t \<Rightarrow> size_t \<Rightarrow> size_t \<Rightarrow> size_t \<Rightarrow> size_t \<Rightarrow> nat" where
  "computeRank N0 N1 N2 N3 N4 N5 N6 N7 =
    (if N7 = unspecified \<and> N6 = unspecified \<and> N5 = unspecified \<and> N4 = unspecified \<and>
        N3 = unspecified \<and> N2 = unspecified \<and> N1 = unspecified \<and> N0 = unspecified then 0
     else if N7 = unspecified \<and> N6 = unspecified \<and> N5 = unspecified \<and> N4 = unspecified \<and>
        N3 = unspecified \<and> N2 = unspecified \<and> N1 = unspecified then 0
     else if N7 = unspecified \<and> N6 = unspecified \<and> N5 = unspecified \<and> N4 = unspecified \<and>
        N3 = unspecified \<and> N2 = unspecified then 1
     else if N7 = unspecified \<and> N6 = unspecified \<and> N5 = unspecified \<and> N4 = unspecified \<and>
        N3 = unspecified then 2
     else if N7 = unspecified \<and> N6 = unspecified \<and> N5 = unspecified \<and> N4 = unspecified then 3
     else if N7 = unspecified \<and> N6 = unspecified \<and> N5 = unspecified then 4
     else if N7 = unspecified \<and> N6 = unspecified then 5
     else if N7 = unspecified then 6
     else 7)"

text \<open>The overload on a layout reads the eight slots of its dimension array.\<close>

definition computeRank_layout :: "'a Layout_scheme \<Rightarrow> nat" where
  "computeRank_layout layout =
     computeRank (dimension layout ! 0) (dimension layout ! 1) (dimension layout ! 2)
       (dimension layout ! 3) (dimension layout ! 4) (dimension layout ! 5)
       (dimension layout ! 6) (dimension layout ! 7)"

subsection \<open>createLayout\<close>

text \<open>The overload for \<^verbatim>\<open>LayoutLeft\<close> and \<^verbatim>\<open>LayoutRight\<close>.\<close>

definition createLayout :: "Layout \<Rightarrow> Layout" where
  "createLayout layout =
    (let l = Layout_ctor
               (if dimension layout ! 0 \<noteq> unspecified then dimension layout ! 0 else 1)
               (if dimension layout ! 1 \<noteq> unspecified then dimension layout ! 1 else 1)
               (if dimension layout ! 2 \<noteq> unspecified then dimension layout ! 2 else 1)
               (if dimension layout ! 3 \<noteq> unspecified then dimension layout ! 3 else 1)
               (if dimension layout ! 4 \<noteq> unspecified then dimension layout ! 4 else 1)
               (if dimension layout ! 5 \<noteq> unspecified then dimension layout ! 5 else 1)
               (if dimension layout ! 6 \<noteq> unspecified then dimension layout ! 6 else 1)
               (if dimension layout ! 7 \<noteq> unspecified then dimension layout ! 7 else 1);
         fad_dim = computeRank_layout layout;
         fad_size = dimension layout ! fad_dim;
         l = l\<lparr>dimension := (dimension l)[fad_dim := 1]\<rparr>;
         l = l\<lparr>dimension := (dimension l)[7 := fad_size]\<rparr>
     in l)"

text \<open>The overload for \<^verbatim>\<open>LayoutStride\<close>.\<close>

definition createLayout_stride :: "LayoutStride \<Rightarrow> LayoutStride" where
  "createLayout_stride layout =
    (let l = LayoutStride_ctor
               (if dimension layout ! 0 \<noteq> unspecified then dimension layout ! 0 else 1)
               (stride layout ! 0)
               (if dimension layout ! 1 \<noteq> unspecified then dimension layout ! 1 else 1)
               (stride layout ! 1)
               (if dimension layout ! 2 \<noteq> unspecified then dimension layout ! 2 else 1)
               (stride layout ! 2)
               (if dimension layout ! 3 \<noteq> unspecified then dimension layout ! 3 else 1)
               (stride layout ! 3)
               (if dimension layout ! 4 \<noteq> unspecified then dimension layout ! 4 else 1)
               (stride layout ! 4)
               (if dimension layout ! 5 \<noteq> unspecified then dimension layout ! 5 else 1)
               (stride layout ! 5)
               (if dimension layout ! 6 \<noteq> unspecified then dimension layout ! 6 else 1)
               (stride layout ! 6)
               (if dimension layout ! 7 \<noteq> unspecified then dimension layout ! 7 else 1)
               (stride layout ! 7);
         fad_dim = computeRank_layout layout;
         fad_size = dimension layout ! fad_dim;
         l = l\<lparr>dimension := (dimension l)[fad_dim := 1]\<rparr>;
         l = l\<lparr>dimension := (dimension l)[7 := fad_size]\<rparr>
     in l)"

text \<open>
  A dimension vector with \<open>k\<close> leading specified slots followed by \<open>8 - k\<close> unspecified
  ones.
\<close>

definition leading_specified :: "nat \<Rightarrow> size_t list \<Rightarrow> bool" where
  "leading_specified k ds \<longleftrightarrow>
     length ds = 8 \<and> k \<le> 8 \<and>
     list_all (\<lambda>x. x \<noteq> unspecified) (take k ds) \<and>
     drop k ds = replicate (8 - k) unspecified"

text \<open>
  The ternary \<^verbatim>\<open>layout.dimension[i] != unspecified ? layout.dimension[i] : 1\<close> that
  \<^verbatim>\<open>createLayout\<close> applies to every slot, named for use in statements.
\<close>

definition specified_or_one :: "size_t \<Rightarrow> size_t" where
  "specified_or_one x = (if x \<noteq> unspecified then x else 1)"

subsection \<open>View offsets\<close>

text \<open>
  Modelled from the spec: the offset type, which is declared in Kokkos, outside this file.
  A \<^verbatim>\<open>ViewOffset\<close> holds a dimension vector, the extents
  \<^verbatim>\<open>m_dim.N0 .. m_dim.N7\<close>, and a stride vector, the strides
  \<^verbatim>\<open>m_stride.S0 .. m_stride.S7\<close>, under the member names the code uses. For a static
  extent the C++ member is a compile-time constant that cannot be assigned; here every slot
  is a field, and the rules below say which fields they write.
\<close>

record ViewDimension =
  N0 :: size_t
  N1 :: size_t
  N2 :: size_t
  N3 :: size_t
  N4 :: size_t
  N5 :: size_t
  N6 :: size_t
  N7 :: size_t

record ViewStride =
  S0 :: size_t
  S1 :: size_t
  S2 :: size_t
  S3 :: size_t
  S4 :: size_t
  S5 :: size_t
  S6 :: size_t
  S7 :: size_t

record ViewOffset =
  m_dim :: ViewDimension
  m_stride :: ViewStride

text \<open>
  Modelled from the spec: \<^verbatim>\<open>ViewDimension::extent(r)\<close>, which is declared in Kokkos,
  outside this file. It reads the extent at position \<open>r\<close> of the eight slots; the code
  calls it with \<open>r \<le> 7\<close> only, and a position past the last slot reads as 0 here.
  \<open>stride_slot\<close> is the same reading of the stride fields, used only to state properties
  slot by slot.
\<close>

definition extent :: "ViewDimension \<Rightarrow> nat \<Rightarrow> size_t" where
  "extent d r =
    (if r = 0 then N0 d else if r = 1 then N1 d else if r = 2 then N2 d
     else if r = 3 then N3 d else if r = 4 then N4 d else if r = 5 then N5 d
     else if r = 6 then N6 d else if r = 7 then N7 d else 0)"

definition stride_slot :: "ViewStride \<Rightarrow> nat \<Rightarrow> size_t" where
  "stride_slot s r =
    (if r = 0 then S0 s else if r = 1 then S1 s else if r = 2 then S2 s
     else if r = 3 then S3 s else if r = 4 then S4 s else if r = 5 then S5 s
     else if r = 6 then S6 s else if r = 7 then S7 s else 0)"

subsection \<open>AssignDim7 and AssignFadDimStride\<close>

text \<open>
  \<^verbatim>\<open>AssignDim7<StaticDim>::eval\<close>: the primary template has an empty body, the
  specialisation for \<^verbatim>\<open>0u\<close> writes \<^verbatim>\<open>dst.N7\<close>.
\<close>

definition AssignDim7 :: "nat \<Rightarrow> ViewDimension \<Rightarrow> size_t \<Rightarrow> ViewDimension" where
  "AssignDim7 StaticDim dst src_dim = (if StaticDim = 0 then dst\<lparr>N7 := src_dim\<rparr> else dst)"

text \<open>
  \<^verbatim>\<open>AssignFadDimStride<R,StaticDim>::eval(dst, src)\<close>, one definition per specialisation.
  The assignments are applied in the order of the source; \<open>src\<close> is a separate object that
  the rule only reads.
\<close>

definition AssignFadDimStride_0 :: "nat \<Rightarrow> ViewOffset \<Rightarrow> ViewOffset \<Rightarrow> ViewOffset" where
  "AssignFadDimStride_0 StaticDim dst src =
     dst\<lparr>m_stride := (m_stride dst)
            \<lparr>S0 := 0, S1 := 0, S2 := 0, S3 := 0, S4 := 0, S5 := 0, S6 := 0, S7 := S0 (m_stride src)\<rparr>,
         m_dim := AssignDim7 StaticDim
            ((m_dim dst)\<lparr>N0 := 1, N1 := 1, N2 := 1, N3 := 1, N4 := 1, N5 := 1, N6 := 1\<rparr>)
            (N0 (m_dim src))\<rparr>"

definition AssignFadDimStride_1 :: "nat \<Rightarrow> ViewOffset \<Rightarrow> ViewOffset \<Rightarrow> ViewOffset" where
  "AssignFadDimStride_1 StaticDim dst src =
     dst\<lparr>m_stride := (m_stride dst)
            \<lparr>S0 := S0 (m_stride src), S1 := 0, S2 := 0, S3 := 0, S4 := 0, S5 := 0, S6 := 0, S7 := S1 (m_stride src)\<rparr>,
         m_dim := AssignDim7 StaticDim
            ((m_dim dst)\<lparr>N0 := N0 (m_dim src), N1 := 1, N2 := 1, N3 := 1, N4 := 1, N5 := 1, N6 := 1\<rparr>)
            (N1 (m_dim src))\<rparr>"

definition AssignFadDimStride_2 :: "nat \<Rightarrow> ViewOffset \<Rightarrow> ViewOffset \<Rightarrow> ViewOffset" where
  "AssignFadDimStride_2 StaticDim dst src =
     dst\<lparr>m_stride := (m_stride dst)
            \<lparr>S0 := S0 (m_stride src), S1 := S1 (m_stride src), S2 := 0, S3 := 0, S4 := 0, S5 := 0, S6 := 0, S7 := S2 (m_stride src)\<rparr>,
         m_dim := AssignDim7 StaticDim
            ((m_dim dst)\<lparr>N0 := N0 (m_dim src), N1 := N1 (m_dim src), N2 := 1, N3 := 1, N4 := 1, N5 := 1, N6 := 1\<rparr>)
            (N2 (m_dim src))\<rparr>"

definition AssignFadDimStride_3 :: "nat \<Rightarrow> ViewOffset \<Rightarrow> ViewOffset \<Rightarrow> ViewOffset" where
  "AssignFadDimStride_3 StaticDim dst src =
     dst\<lparr>m_stride := (m_stride dst)
            \<lparr>S0 := S0 (m_stride src), S1 := S1 (m_stride src), S2 := S2 (m_stride src), S3 := 0, S4 := 0, S5 := 0, S6 := 0, S7 := S3 (m_stride src)\<rparr>,
         m_dim := AssignDim7 StaticDim
            ((m_dim dst)\<lparr>N0 := N0 (m_dim src), N1 := N1 (m_dim src), N2 := N2 (m_dim src), N3 := 1, N4 := 1, N5 := 1, N6 := 1\<rparr>)
            (N3 (m_dim src))\<rparr>"

definition AssignFadDimStride_4 :: "nat \<Rightarrow> ViewOffset \<Rightarrow> ViewOffset \<Rightarrow> ViewOffset" where
  "AssignFadDimStride_4 StaticDim dst src =
     dst\<lparr>m_stride := (m_stride dst)
            \<lparr>S0 := S0 (m_stride src), S1 := S1 (m_stride src), S2 := S2 (m_stride src), S3 := S3 (m_stride src), S4 := 0, S5 := 0, S6 := 0, S7 := S4 (m_stride src)\<rparr>,
         m_dim := AssignDim7 StaticDim
            ((m_dim dst)\<lparr>N0 := N0 (m_dim src), N1 := N1 (m_dim src), N2 := N2 (m_dim src), N3 := N3 (m_dim src), N4 := 1, N5 := 1, N6 := 1\<rparr>)
            (N4 (m_dim src))\<rparr>"

definition AssignFadDimStride_5 :: "nat \<Rightarrow> ViewOffset \<Rightarrow> ViewOffset \<Rightarrow> ViewOffset" where
  "AssignFadDimStride_5 StaticDim dst src =
     dst\<lparr>m_stride := (m_stride dst)
            \<lparr>S0 := S0 (m_stride src), S1 := S1 (m_stride src), S2 := S2 (m_stride src), S3 := S3 (m_stride src), S4 := S4 (m_stride src), S5 := 0, S6 := 0, S7 := S5 (m_stride src)\<rparr>,
         m_dim := AssignDim7 StaticDim
            ((m_dim dst)\<lparr>N0 := N0 (m_dim src), N1 := N1 (m_dim src), N2 := N2 (m_dim src), N3 := N3 (m_dim src), N4 := N4 (m_dim src), N5 := 1, N6 := 1\<rparr>)
            (N5 (m_dim src))\<rparr>"

definition AssignFadDimStride_6 :: "nat \<Rightarrow> ViewOffset \<Rightarrow> ViewOffset \<Rightarrow> ViewOffset" where
  "AssignFadDimStride_6 StaticDim dst src =
     dst\<lparr>m_stride := (m_stride dst)
            \<lparr>S0 := S0 (m_stride src), S1 := S1 (m_stride src), S2 := S2 (m_stride src), S3 := S3 (m_stride src), S4 := S4 (m_stride src), S5 := S5 (m_stride src), S6 := 0, S7 := S6 (m_stride src)\<rparr>,
         m_dim := AssignDim7 StaticDim
            ((m_dim dst)\<lparr>N0 := N0 (m_dim src), N1 := N1 (m_dim src), N2 := N2 (m_dim src), N3 := N3 (m_dim src), N4 := N4 (m_dim src), N5 := N5 (m_dim src), N6 := 1\<rparr>)
            (N6 (m_dim src))\<rparr>"

definition AssignFadDimStride_7 :: "nat \<Rightarrow> ViewOffset \<Rightarrow> ViewOffset \<Rightarrow> ViewOffset" where
  "AssignFadDimStride_7 StaticDim dst src =
     dst\<lparr>m_stride := (m_stride dst)
            \<lparr>S0 := S0 (m_stride src), S1 := S1 (m_stride src), S2 := S2 (m_stride src), S3 := S3 (m_stride src), S4 := S4 (m_stride src), S5 := S5 (m_stride src), S6 := S6 (m_stride src), S7 := S7 (m_stride src)\<rparr>,
         m_dim := AssignDim7 StaticDim
            ((m_dim dst)\<lparr>N0 := N0 (m_dim src), N1 := N1 (m_dim src), N2 := N2 (m_dim src), N3 := N3 (m_dim src), N4 := N4 (m_dim src), N5 := N5 (m_dim src), N6 := N6 (m_dim src)\<rparr>)
            (N7 (m_dim src))\<rparr>"

text \<open>
  Dispatch on the first template argument. The primary template
  \<^verbatim>\<open>AssignFadDimStride\<close> is an empty struct, so a rank above 7 has no \<^verbatim>\<open>eval\<close>.
\<close>

definition AssignFadDimStride :: "nat \<Rightarrow> nat \<Rightarrow> ViewOffset \<Rightarrow> ViewOffset \<Rightarrow> ViewOffset option" where
  "AssignFadDimStride R StaticDim dst src =
    (if R = 0 then Some (AssignFadDimStride_0 StaticDim dst src)
     else if R = 1 then Some (AssignFadDimStride_1 StaticDim dst src)
     else if R = 2 then Some (AssignFadDimStride_2 StaticDim dst src)
     else if R = 3 then Some (AssignFadDimStride_3 StaticDim dst src)
     else if R = 4 then Some (AssignFadDimStride_4 StaticDim dst src)
     else if R = 5 then Some (AssignFadDimStride_5 StaticDim dst src)
     else if R = 6 then Some (AssignFadDimStride_6 StaticDim dst src)
     else if R = 7 then Some (AssignFadDimStride_7 StaticDim dst src)
     else None)"

subsection \<open>AssignFadDim7 and AssignDim\<close>

definition AssignFadDim7 :: "nat \<Rightarrow> ViewOffset \<Rightarrow> ViewOffset \<Rightarrow> nat \<Rightarrow> ViewOffset" where
  "AssignFadDim7 StaticDim dst src dim =
    (if StaticDim = 0 then dst\<lparr>m_dim := (m_dim dst)\<lparr>N7 := extent (m_dim src) dim\<rparr>\<rparr> else dst)"

text \<open>\<^verbatim>\<open>AssignDim<R,FadStaticDim>::eval(dst, src)\<close>, one definition per specialisation.\<close>

definition AssignDim_0 :: "nat \<Rightarrow> ViewOffset \<Rightarrow> ViewOffset \<Rightarrow> ViewOffset" where
  "AssignDim_0 FadStaticDim dst src =
     AssignFadDim7 FadStaticDim
       (dst\<lparr>m_dim := (m_dim dst)\<lparr>N0 := 1, N1 := 1, N2 := 1, N3 := 1, N4 := 1, N5 := 1, N6 := 1\<rparr>\<rparr>)
       src 0"

definition AssignDim_1 :: "nat \<Rightarrow> ViewOffset \<Rightarrow> ViewOffset \<Rightarrow> ViewOffset" where
  "AssignDim_1 FadStaticDim dst src =
     AssignFadDim7 FadStaticDim
       (dst\<lparr>m_dim := (m_dim dst)\<lparr>N0 := N0 (m_dim src), N1 := 1, N2 := 1, N3 := 1, N4 := 1, N5 := 1, N6 := 1\<rparr>\<rparr>)
       src 1"

definition AssignDim_2 :: "nat \<Rightarrow> ViewOffset \<Rightarrow> ViewOffset \<Rightarrow> ViewOffset" where
  "AssignDim_2 FadStaticDim dst src =
     AssignFadDim7 FadStaticDim
       (dst\<lparr>m_dim := (m_dim dst)\<lparr>N0 := N0 (m_dim src), N1 := N1 (m_dim src), N2 := 1, N3 := 1, N4 := 1, N5 := 1, N6 := 1\<rparr>\<rparr>)
       src 2"

definition AssignDim_3 :: "nat \<Rightarrow> ViewOffset \<Rightarrow> ViewOffset \<Rightarrow> ViewOffset" where
  "AssignDim_3 FadStaticDim dst src =
     AssignFadDim7 FadStaticDim
       (dst\<lparr>m_dim := (m_dim dst)\<lparr>N0 := N0 (m_dim src), N1 := N1 (m_dim src), N2 := N2 (m_dim src), N3 := 1, N4 := 1, N5 := 1, N6 := 1\<rparr>\<rparr>)
       src 3"

definition AssignDim_4 :: "nat \<Rightarrow> ViewOffset \<Rightarrow> ViewOffset \<Rightarrow> ViewOffset" where
  "AssignDim_4 FadStaticDim dst src =
     AssignFadDim7 FadStaticDim
       (dst\<lparr>m_dim := (m_dim dst)\<lparr>N0 := N0 (m_dim src), N1 := N1 (m_dim src), N2 := N2 (m_dim src), N3 := N3 (m_dim src), N4 := 1, N5 := 1, N6 := 1\<rparr>\<rparr>)
       src 4"

definition AssignDim_5 :: "nat \<Rightarrow> ViewOffset \<Rightarrow> ViewOffset \<Rightarrow> ViewOffset" where
  "AssignDim_5 FadStaticDim dst src =
     AssignFadDim7 FadStaticDim
       (dst\<lparr>m_dim := (m_dim dst)\<lparr>N0 := N0 (m_dim src), N1 := N1 (m_dim src), N2 := N2 (m_dim src), N3 := N3 (m_dim src), N4 := N4 (m_dim src), N5 := 1, N6 := 1\<rparr>\<rparr>)
       src 5"

definition AssignDim_6 :: "nat \<Rightarrow> ViewOffset \<Rightarrow> ViewOffset \<Rightarrow> ViewOffset" where
  "AssignDim_6 FadStaticDim dst src =
     AssignFadDim7 FadStaticDim
       (dst\<lparr>m_dim := (m_dim dst)\<lparr>N0 := N0 (m_dim src), N1 := N1 (m_dim src), N2 := N2 (m_dim src), N3 := N3 (m_dim src), N4 := N4 (m_dim src), N5 := N5 (m_dim src), N6 := 1\<rparr>\<rparr>)
       src 6"

definition AssignDim_7 :: "nat \<Rightarrow> ViewOffset \<Rightarrow> ViewOffset \<Rightarrow> ViewOffset" where
  "AssignDim_7 FadStaticDim dst src =
     AssignFadDim7 FadStaticDim
       (dst\<lparr>m_dim := (m_dim dst)\<lparr>N0 := N0 (m_dim src), N1 := N1 (m_dim src), N2 := N2 (m_dim src), N3 := N3 (m_dim src), N4 := N4 (m_dim src), N5 := N5 (m_dim src), N6 := N6 (m_dim src)\<rparr>\<rparr>)
       src 7"

definition AssignDim :: "nat \<Rightarrow> nat \<Rightarrow> ViewOffset \<Rightarrow> ViewOffset \<Rightarrow> ViewOffset option" where
  "AssignDim R FadStaticDim dst src =
    (if R = 0 then Some (AssignDim_0 FadStaticDim dst src)
     else if R = 1 then Some (AssignDim_1 FadStaticDim dst src)
     else if R = 2 then Some (AssignDim_2 FadStaticDim dst src)
     else if R = 3 then Some (AssignDim_3 FadStaticDim dst src)
     else if R = 4 then Some (AssignDim_4 FadStaticDim dst src)
     else if R = 5 then Some (AssignDim_5 FadStaticDim dst src)
     else if R = 6 then Some (AssignDim_6 FadStaticDim dst src)
     else if R = 7 then Some (AssignDim_7 FadStaticDim dst src)
     else None)"

subsection \<open>Views\<close>

text \<open>
  Modelled from the spec: the view classes, which are declared in Kokkos and Sacado, outside
  this file. A view owns a descriptor (a dimension vector, a stride vector, a derivative-size
  field and a derivative-stride field) and a handle to its storage. The fields are those the
  code below reads and writes, under its member names: the allocation tracker
  \<^verbatim>\<open>m_track\<close> (an opaque identifier), the mapping \<^verbatim>\<open>m_map\<close> with its offset, its data
  handle (an address) and the two Fad fields, and, for a \<^verbatim>\<open>DynRankView\<close>, the run-time
  rank \<^verbatim>\<open>m_rank\<close>. A \<^verbatim>\<open>Kokkos::View\<close> has the first two members; its rank is the
  compile-time constant \<^verbatim>\<open>Rank\<close>, passed to \<open>assign\<close> as an argument.
\<close>

datatype specialize =
  ViewSpecializeSacadoFad | ViewSpecializeSacadoFadContiguous | ViewSpecializeVoid

record ViewMapping =
  m_offset :: ViewOffset
  m_handle :: size_t
  m_fad_size :: "32 word"
  m_fad_stride :: "32 word"

record View =
  m_track :: nat
  m_map :: ViewMapping

record DynRankView = View +
  m_rank :: nat

subsection \<open>subview\<close>

text \<open>
  \<^verbatim>\<open>ViewMapping<DynRankSubviewTag, SrcTraits, Args...>::subview\<close>. The flags
  \<open>R0 .. R6\<close> are \<^verbatim>\<open>is_integral_extent<i, Args...>::value\<close>, and \<^verbatim>\<open>rank\<close> is their sum.
  Three values come from Kokkos code outside this file and are arguments here: \<open>tempdst\<close>,
  the offset built from the source offset and the subview extents; \<open>domain_offset\<close>, the
  value of \<^verbatim>\<open>src.m_map.m_offset(extents.domain_offset(0), ..., extents.domain_offset(7))\<close>;
  and \<open>dst\<close>, the default-constructed result view.
\<close>

definition subview ::
  "bool \<Rightarrow> bool \<Rightarrow> bool \<Rightarrow> bool \<Rightarrow> bool \<Rightarrow> bool \<Rightarrow> bool \<Rightarrow> nat \<Rightarrow> nat \<Rightarrow>
   DynRankView \<Rightarrow> ViewOffset \<Rightarrow> size_t \<Rightarrow> DynRankView \<Rightarrow> DynRankView option" where
  "subview R0 R1 R2 R3 R4 R5 R6 FadStaticDim src_rank src tempdst domain_offset dst =
    (let rank = of_bool R0 + of_bool R1 + of_bool R2 + of_bool R3
              + of_bool R4 + of_bool R5 + of_bool R6;
         dst = dst\<lparr>m_track := m_track src\<rparr>
     in case AssignFadDimStride rank FadStaticDim (m_offset (m_map dst)) tempdst of
          None \<Rightarrow> None
        | Some off \<Rightarrow>
           (let dst = dst\<lparr>m_map := (m_map dst)\<lparr>m_offset := off\<rparr>\<rparr>;
                dst = dst\<lparr>m_track := m_track src\<rparr>;
                dst = dst\<lparr>m_map := (m_map dst)
                         \<lparr>m_handle := m_handle (m_map src) + domain_offset\<rparr>\<rparr>;
                dst = dst\<lparr>m_map := (m_map dst)\<lparr>m_fad_size := m_fad_size (m_map src)\<rparr>\<rparr>;
                dst = dst\<lparr>m_map := (m_map dst)\<lparr>m_fad_stride := m_fad_stride (m_map src)\<rparr>\<rparr>;
                dst = dst\<lparr>m_rank := (if 0 < src_rank then of_bool R0 else 0)
                                   + (if 1 < src_rank then of_bool R1 else 0)
                                   + (if 2 < src_rank then of_bool R2 else 0)
                                   + (if 3 < src_rank then of_bool R3 else 0)
                                   + (if 4 < src_rank then of_bool R4 else 0)
                                   + (if 5 < src_rank then of_bool R5 else 0)
                                   + (if 6 < src_rank then of_bool R6 else 0)\<rparr>
            in Some dst))"

subsection \<open>Assignment of a View of Fad to a DynRankView\<close>

text \<open>
  \<^verbatim>\<open>assign_fad_size\<close> has two overloads, selected by the destination's
  \<^verbatim>\<open>specialize\<close>: the one for \<^verbatim>\<open>ViewSpecializeSacadoFad\<close> copies the two Fad fields,
  the other has an empty body.
\<close>

definition assign_fad_size :: "specialize \<Rightarrow> ViewMapping \<Rightarrow> ViewMapping \<Rightarrow> ViewMapping" where
  "assign_fad_size S dst src =
    (if S = ViewSpecializeSacadoFad
     then dst\<lparr>m_fad_size := m_fad_size src, m_fad_stride := m_fad_stride src\<rparr>
     else dst)"

text \<open>
  \<^verbatim>\<open>ViewMapping<DstTraits, SrcTraits, ViewToDynRankViewTag>::assign\<close>. Its
  \<^verbatim>\<open>enable_if\<close> and \<^verbatim>\<open>static_assert\<close> conditions are decided at compile time and are not
  part of the run-time body modelled here. \<open>DstSpecialize\<close> is
  \<^verbatim>\<open>DstTraits::specialize\<close>, \<open>SrcTraits_rank\<close> is \<^verbatim>\<open>SrcTraits::rank\<close>, \<open>src_Rank\<close> is
  \<^verbatim>\<open>src.Rank\<close>.
\<close>

definition assign ::
  "specialize \<Rightarrow> nat \<Rightarrow> nat \<Rightarrow> nat \<Rightarrow> DynRankView \<Rightarrow> View \<Rightarrow> DynRankView option" where
  "assign DstSpecialize SrcTraits_rank FadStaticDim src_Rank dst src =
    (case AssignDim SrcTraits_rank FadStaticDim (m_offset (m_map dst)) (m_offset (m_map src)) of
       None \<Rightarrow> None
     | Some off \<Rightarrow>
        (let dst = dst\<lparr>m_map := (m_map dst)\<lparr>m_offset := off\<rparr>\<rparr>;
             dst = dst\<lparr>m_map := (m_map dst)\<lparr>m_handle := m_handle (m_map src)\<rparr>\<rparr>;
             dst = dst\<lparr>m_rank := src_Rank\<rparr>;
             dst = dst\<lparr>m_map := (m_map dst)
                      \<lparr>m_offset := (m_offset (m_map dst))
                         \<lparr>m_stride := m_stride (m_offset (m_map src))\<rparr>\<rparr>\<rparr>;
             dst = dst\<lparr>m_map := assign_fad_size DstSpecialize (m_map dst) (m_map src)\<rparr>
         in Some dst))"

text \<open>
  Element counts as natural numbers: the product of the eight extents of a descriptor, and
  the product of its first \<open>n\<close> slots (slots \<open>0 .. n - 1\<close>).
\<close>

definition dimension_product :: "ViewDimension \<Rightarrow> nat" where
  "dimension_product d =
     unat (N0 d) * unat (N1 d) * unat (N2 d) * unat (N3 d) *
     unat (N4 d) * unat (N5 d) * unat (N6 d) * unat (N7 d)"

definition extent_product :: "ViewDimension \<Rightarrow> nat \<Rightarrow> nat" where
  "extent_product d n = prod_list (map (\<lambda>i. unat (extent d i)) [0..<n])"

subsection \<open>deep_copy between two views\<close>

text \<open>
  Modelled from the spec: the traits and accessors of the two views, which are declared in
  Kokkos, outside this file. The view types are template parameters; \<^verbatim>\<open>deep_copy\<close>
  uses their traits (element type, layout kind, memory space, execution space) and their
  accessors only. A view is given by what these return: \<^verbatim>\<open>data()\<close>, \<^verbatim>\<open>rank(v)\<close>,
  \<^verbatim>\<open>span()\<close>, \<^verbatim>\<open>dimension_k()\<close> (slot \<open>Nk\<close> of \<open>dims\<close>) and \<^verbatim>\<open>stride_k()\<close> (slot
  \<open>Sk\<close> of \<open>strides\<close>). Types and spaces are named by strings; \<^verbatim>\<open>non_const_value_type\<close>
  removes the \<^verbatim>\<open>const\<close> qualifier.
\<close>

datatype array_layout = Layout_Left | Layout_Right | Layout_Stride

datatype vtype = Vtype (is_const: bool) (type_name: string)

definition non_const :: "vtype \<Rightarrow> vtype" where
  "non_const t = Vtype False (type_name t)"

record ViewTraits =
  value_type :: vtype
  array_layout :: array_layout
  memory_space :: string
  execution_space :: string
  execution_space_memory_space :: string
  sizeof_value_type :: size_t
  sizeof_value_type_value_type :: size_t

record CopyView =
  traits :: ViewTraits
  data :: size_t
  rank :: nat
  span :: size_t
  dims :: ViewDimension
  strides :: ViewStride

datatype exception = runtime_exception string

text \<open>The condition of the second branch (same layout, left or right, or both of rank 1).\<close>

definition bytewise_left_right :: "CopyView \<Rightarrow> CopyView \<Rightarrow> bool" where
  "bytewise_left_right dst src \<longleftrightarrow>
     value_type (traits dst) = non_const (value_type (traits src)) \<and>
     ((array_layout (traits dst) = array_layout (traits src) \<and>
       (array_layout (traits dst) = Layout_Left \<or> array_layout (traits dst) = Layout_Right))
      \<or> (rank dst = 1 \<and> rank src = 1)) \<and>
     span dst = span src \<and>
     N0 (dims dst) = N0 (dims src) \<and> N1 (dims dst) = N1 (dims src) \<and>
     N2 (dims dst) = N2 (dims src) \<and> N3 (dims dst) = N3 (dims src) \<and>
     N4 (dims dst) = N4 (dims src) \<and> N5 (dims dst) = N5 (dims src) \<and>
     N6 (dims dst) = N6 (dims src) \<and> N7 (dims dst) = N7 (dims src)"

text \<open>The condition of the third branch (same strided layout, or both of rank 1).\<close>

definition bytewise_stride :: "CopyView \<Rightarrow> CopyView \<Rightarrow> bool" where
  "bytewise_stride dst src \<longleftrightarrow>
     value_type (traits dst) = non_const (value_type (traits src)) \<and>
     ((array_layout (traits dst) = array_layout (traits src) \<and>
       array_layout (traits dst) = Layout_Stride)
      \<or> (rank dst = 1 \<and> rank src = 1)) \<and>
     span dst = span src \<and>
     N0 (dims dst) = N0 (dims src) \<and> N1 (dims dst) = N1 (dims src) \<and>
     N2 (dims dst) = N2 (dims src) \<and> N3 (dims dst) = N3 (dims src) \<and>
     N4 (dims dst) = N4 (dims src) \<and> N5 (dims dst) = N5 (dims src) \<and>
     N6 (dims dst) = N6 (dims src) \<and> N7 (dims dst) = N7 (dims src) \<and>
     S0 (strides dst) = S0 (strides src) \<and> S1 (strides dst) = S1 (strides src) \<and>
     S2 (strides dst) = S2 (strides src) \<and> S3 (strides dst) = S3 (strides src) \<and>
     S4 (strides dst) = S4 (strides src) \<and> S5 (strides dst) = S5 (strides src) \<and>
     S6 (strides dst) = S6 (strides src) \<and> S7 (strides dst) = S7 (strides src)"

text \<open>
  The dispatch. Three collaborators are arguments: the trait
  \<^verbatim>\<open>VerifyExecutionCanAccessMemorySpace\<close>, the byte copy
  \<^verbatim>\<open>Kokkos::Impl::DeepCopy<DstSpace, SrcSpace>(dst, src, n)\<close> and the element-wise
  \<^verbatim>\<open>DynRankViewRemap\<close> (whose third template argument, the execution space, defaults to the
  destination's); the last two act on the memory \<open>mem\<close>. The result is the memory after
  the call, or the exception raised together with the memory at that point.
\<close>

definition deep_copy ::
  "(string \<Rightarrow> string \<Rightarrow> bool) \<Rightarrow>
   (string \<Rightarrow> string \<Rightarrow> size_t \<Rightarrow> size_t \<Rightarrow> size_t \<Rightarrow> 'm \<Rightarrow> 'm) \<Rightarrow>
   (CopyView \<Rightarrow> CopyView \<Rightarrow> string \<Rightarrow> 'm \<Rightarrow> 'm) \<Rightarrow>
   CopyView \<Rightarrow> CopyView \<Rightarrow> 'm \<Rightarrow> (exception \<times> 'm) + 'm" where
  "deep_copy VerifyExecutionCanAccessMemorySpace DeepCopy DynRankViewRemap dst src mem =
    (let DstExecCanAccessSrc =
           VerifyExecutionCanAccessMemorySpace
             (execution_space_memory_space (traits dst)) (memory_space (traits src));
         SrcExecCanAccessDst =
           VerifyExecutionCanAccessMemorySpace
             (execution_space_memory_space (traits src)) (memory_space (traits dst))
     in if data dst \<noteq> data src then
          if rank src = 0 \<and> rank dst = 0 then
            Inr (DeepCopy (memory_space (traits dst)) (memory_space (traits src))
                   (data dst) (data src) (sizeof_value_type (traits dst)) mem)
          else if bytewise_left_right dst src then
            (let nbytes = sizeof_value_type_value_type (traits dst) * span dst
             in Inr (DeepCopy (memory_space (traits dst)) (memory_space (traits src))
                       (data dst) (data src) nbytes mem))
          else if bytewise_stride dst src then
            (let nbytes = sizeof_value_type_value_type (traits dst) * span dst
             in Inr (DeepCopy (memory_space (traits dst)) (memory_space (traits src))
                       (data dst) (data src) nbytes mem))
          else if DstExecCanAccessSrc then
            Inr (DynRankViewRemap dst src (execution_space (traits dst)) mem)
          else if SrcExecCanAccessDst then
            Inr (DynRankViewRemap dst src (execution_space (traits src)) mem)
          else
            Inl (runtime_exception
                   ''deep_copy given views that would require a temporary allocation'', mem)
        else Inr mem)"

section \<open>Properties\<close>

subsection \<open>Auxiliary facts\<close>

lemma replicate_numeral_unfold:
  "replicate (numeral k) x = x # replicate (pred_numeral k) x"
  by (simp add: numeral_eq_Suc)

lemma length8E:
  assumes "length xs = 8"
  obtains a0 a1 a2 a3 a4 a5 a6 a7 where "xs = [a0, a1, a2, a3, a4, a5, a6, a7]"
  using assms by (auto simp: numeral_eq_Suc length_Suc_conv)

lemma one_specified: "(1::size_t) \<noteq> unspecified"
  by (simp add: unspecified_def)

lemma specified_or_one_specified: "specified_or_one x \<noteq> unspecified"
  by (simp add: specified_or_one_def one_specified)

lemma computeRank_le7: "computeRank a0 a1 a2 a3 a4 a5 a6 a7 \<le> 7"
  by (simp add: computeRank_def)

lemma computeRank_layout_less8: "computeRank_layout layout < 8"
  using computeRank_le7 [of "dimension layout ! 0" "dimension layout ! 1" "dimension layout ! 2"
      "dimension layout ! 3" "dimension layout ! 4" "dimension layout ! 5"
      "dimension layout ! 6" "dimension layout ! 7"]
  by (simp add: computeRank_layout_def)

lemma computeRank_slot_specified:
  assumes "\<not> (a0 = unspecified \<and> a1 = unspecified \<and> a2 = unspecified \<and> a3 = unspecified \<and>
              a4 = unspecified \<and> a5 = unspecified \<and> a6 = unspecified \<and> a7 = unspecified)"
  shows "[a0, a1, a2, a3, a4, a5, a6, a7] ! computeRank a0 a1 a2 a3 a4 a5 a6 a7 \<noteq> unspecified"
  using assms by (auto simp add: computeRank_def)

lemma leading_specified_nth:
  assumes "leading_specified k ds" "i < 8"
  shows "(ds ! i = unspecified) = (k \<le> i)"
proof (cases "i < k")
  case True
  with assms have "take k ds ! i = ds ! i" by simp
  moreover from assms True have "i < length (take k ds)" by (simp add: leading_specified_def)
  moreover from assms have "\<forall>x\<in>set (take k ds). x \<noteq> unspecified"
    by (simp add: leading_specified_def list_all_iff)
  ultimately have "ds ! i \<noteq> unspecified" by (metis nth_mem)
  with True show ?thesis by simp
next
  case False
  from assms have len: "length ds = 8" and k: "k \<le> 8"
    and d: "drop k ds = replicate (8 - k) unspecified"
    by (simp_all add: leading_specified_def)
  from False have "ds ! i = ds ! (k + (i - k))" by simp
  also from len k have "\<dots> = drop k ds ! (i - k)" by simp
  also from False assms(2) have "\<dots> = unspecified" by (simp add: d)
  finally show ?thesis using False by simp
qed

text \<open>The dimension array that \<open>createLayout\<close> returns, as two updates of the defaulted input.\<close>

lemma createLayout_dimension:
  assumes "length (dimension layout) = 8"
  shows "dimension (createLayout layout) =
     ((map specified_or_one (dimension layout))[computeRank_layout layout := 1])
       [7 := dimension layout ! computeRank_layout layout]"
proof -
  from assms obtain a0 a1 a2 a3 a4 a5 a6 a7
    where ds: "dimension layout = [a0, a1, a2, a3, a4, a5, a6, a7]"
    by (rule length8E)
  show ?thesis
    unfolding createLayout_def Layout_ctor_def Let_def specified_or_one_def [symmetric] ds
    by simp
qed

subsection \<open>computeRank on contiguous dimension vectors\<close>

text \<open>
  C1 (as the code has it). For a dimension vector with \<open>k\<close> leading specified slots followed
  by \<open>8 - k\<close> unspecified slots, \<open>computeRank\<close> returns \<open>k - 1\<close> for every \<open>k\<close> from 1 to
  8, and 0 for \<open>k = 0\<close> (truncated subtraction covers both): the last specified slot is the
  Fad dimension and is not counted. All slots unspecified gives 0, all slots specified
  gives 7.
\<close>

theorem computeRank_leading_specified:
  assumes "leading_specified k ds"
  shows "computeRank (ds ! 0) (ds ! 1) (ds ! 2) (ds ! 3) (ds ! 4) (ds ! 5) (ds ! 6) (ds ! 7) = k - 1"
proof -
  have k: "k \<le> 8" using assms by (simp add: leading_specified_def)
  show ?thesis
    unfolding computeRank_def
    using k by (simp add: leading_specified_nth [OF assms]) arith
qed

theorem computeRank_leading_specified_witness:
  "leading_specified 3 [4, 4, 3, unspecified, unspecified, unspecified, unspecified, unspecified] \<and>
   computeRank 4 4 3 unspecified unspecified unspecified unspecified unspecified = 3 - 1"
  using computeRank_leading_specified
    [of 3 "[4, 4, 3, unspecified, unspecified, unspecified, unspecified, unspecified]"]
  by (simp add: leading_specified_def unspecified_def replicate_numeral_unfold)

text \<open>
  C1 as stated fails: with one leading specified slot (\<open>k = 1\<close>) the result is 0, not 1.
\<close>

theorem computeRank_one_leading_counterexample:
  "leading_specified 1
     [5, unspecified, unspecified, unspecified, unspecified, unspecified, unspecified, unspecified] \<and>
   computeRank 5 unspecified unspecified unspecified unspecified unspecified unspecified unspecified
     \<noteq> 1"
  by (simp add: leading_specified_def computeRank_def unspecified_def replicate_numeral_unfold)

subsection \<open>createLayout for LayoutLeft and LayoutRight\<close>

text \<open>
  C3. For a layout whose Fad slot, as \<open>computeRank\<close> finds it, is at position \<open>p \<le> 6\<close>,
  \<open>createLayout\<close> returns eight slots in which slot 7 holds the input's extent at \<open>p\<close>,
  slot \<open>p\<close> holds 1, and every other slot below 7 holds 1 if it was unspecified in the
  input and its input extent otherwise.
\<close>

theorem createLayout_moves_fad_extent:
  assumes len: "length (dimension layout) = 8"
    and p: "computeRank_layout layout = p" and p6: "p \<le> 6"
  shows "length (dimension (createLayout layout)) = 8 \<and>
         dimension (createLayout layout) ! 7 = dimension layout ! p \<and>
         dimension (createLayout layout) ! p = 1 \<and>
         (\<forall>i<7. i \<noteq> p \<longrightarrow>
            dimension (createLayout layout) ! i =
              (if dimension layout ! i = unspecified then 1 else dimension layout ! i))"
  using p6
  by (simp add: createLayout_dimension [OF len] p len nth_list_update specified_or_one_def)

theorem createLayout_moves_fad_extent_witness:
  "length (dimension \<lparr>dimension =
      [4, 4, 3, unspecified, unspecified, unspecified, unspecified, unspecified]\<rparr>) = 8 \<and>
   computeRank_layout \<lparr>dimension =
      [4, 4, 3, unspecified, unspecified, unspecified, unspecified, unspecified]\<rparr> = 2 \<and>
   (2::nat) \<le> 6 \<and>
   dimension (createLayout \<lparr>dimension =
      [4, 4, 3, unspecified, unspecified, unspecified, unspecified, unspecified]\<rparr>) ! 7 = 3 \<and>
   dimension (createLayout \<lparr>dimension =
      [4, 4, 3, unspecified, unspecified, unspecified, unspecified, unspecified]\<rparr>) ! 2 = 1 \<and>
   dimension (createLayout \<lparr>dimension =
      [4, 4, 3, unspecified, unspecified, unspecified, unspecified, unspecified]\<rparr>) ! 5 = 1"
proof -
  let ?l = "\<lparr>dimension =
      [4, 4, 3, unspecified, unspecified, unspecified, unspecified, unspecified]\<rparr>"
  have len: "length (dimension ?l) = 8" by simp
  have p: "computeRank_layout ?l = 2"
    by (simp add: computeRank_layout_def computeRank_def unspecified_def)
  have p6: "(2::nat) \<le> 6" by simp
  from createLayout_moves_fad_extent [OF len p p6] len p show ?thesis by simp
qed

text \<open>
  C9 (as the code has it). For a layout with at least one specified slot, the output of
  \<open>createLayout\<close> has eight slots, none of which is the sentinel: every slot below 7 that
  was unspecified holds 1, and slot 7 holds the input's extent at the Fad slot, which is
  specified.
\<close>

theorem createLayout_no_sentinel:
  assumes len: "length (dimension layout) = 8"
    and some: "\<exists>i<8. dimension layout ! i \<noteq> unspecified"
  shows "length (dimension (createLayout layout)) = 8 \<and>
         dimension (createLayout layout) ! 7 = dimension layout ! computeRank_layout layout \<and>
         (\<forall>i<7. dimension layout ! i = unspecified \<longrightarrow> dimension (createLayout layout) ! i = 1) \<and>
         (\<forall>i<8. dimension (createLayout layout) ! i \<noteq> unspecified)"
proof -
  from len obtain a0 a1 a2 a3 a4 a5 a6 a7
    where ds: "dimension layout = [a0, a1, a2, a3, a4, a5, a6, a7]"
    by (rule length8E)
  have "\<not> (a0 = unspecified \<and> a1 = unspecified \<and> a2 = unspecified \<and> a3 = unspecified \<and>
           a4 = unspecified \<and> a5 = unspecified \<and> a6 = unspecified \<and> a7 = unspecified)"
  proof
    assume a: "a0 = unspecified \<and> a1 = unspecified \<and> a2 = unspecified \<and> a3 = unspecified \<and>
           a4 = unspecified \<and> a5 = unspecified \<and> a6 = unspecified \<and> a7 = unspecified"
    from some obtain i where i: "i < 8" "dimension layout ! i \<noteq> unspecified" by blast
    from i(1) have "i = 0 \<or> i = 1 \<or> i = 2 \<or> i = 3 \<or> i = 4 \<or> i = 5 \<or> i = 6 \<or> i = 7"
      by arith
    with i(2) a show False by (auto simp add: ds)
  qed
  then have fad: "dimension layout ! computeRank_layout layout \<noteq> unspecified"
    using computeRank_slot_specified [of a0 a1 a2 a3 a4 a5 a6 a7]
    by (simp add: ds computeRank_layout_def)
  have 1: "length (dimension (createLayout layout)) = 8"
    by (simp add: createLayout_dimension [OF len] len)
  have 2: "dimension (createLayout layout) ! 7 = dimension layout ! computeRank_layout layout"
    by (simp add: createLayout_dimension [OF len] len)
  have 3: "dimension (createLayout layout) ! i = 1"
    if "i < 7" "dimension layout ! i = unspecified" for i
    using that
    by (simp add: createLayout_dimension [OF len] len nth_list_update
          computeRank_layout_less8 specified_or_one_def)
  have 4: "dimension (createLayout layout) ! i \<noteq> unspecified" if "i < 8" for i
    using that fad
    by (simp add: createLayout_dimension [OF len] len nth_list_update
          computeRank_layout_less8 specified_or_one_specified one_specified)
  from 1 2 3 4 show ?thesis by blast
qed

theorem createLayout_no_sentinel_witness:
  "length (dimension \<lparr>dimension =
      [4, 3, unspecified, unspecified, unspecified, unspecified, unspecified, unspecified]\<rparr>) = 8 \<and>
   dimension (createLayout \<lparr>dimension =
      [4, 3, unspecified, unspecified, unspecified, unspecified, unspecified, unspecified]\<rparr>) ! 7
     \<noteq> unspecified \<and>
   dimension (createLayout \<lparr>dimension =
      [4, 3, unspecified, unspecified, unspecified, unspecified, unspecified, unspecified]\<rparr>) ! 2
     = 1"
proof -
  let ?l = "\<lparr>dimension =
      [4, 3, unspecified, unspecified, unspecified, unspecified, unspecified, unspecified]\<rparr>"
  have len: "length (dimension ?l) = 8" by simp
  have "dimension ?l ! 0 \<noteq> unspecified" by (simp add: unspecified_def)
  then have some: "\<exists>i<8. dimension ?l ! i \<noteq> unspecified" by (intro exI [of _ 0]) simp
  from createLayout_no_sentinel [OF len some]
  have a: "\<forall>i<7. dimension ?l ! i = unspecified \<longrightarrow> dimension (createLayout ?l) ! i = 1"
    and b: "\<forall>i<8. dimension (createLayout ?l) ! i \<noteq> unspecified"
    by blast+
  from b have "dimension (createLayout ?l) ! 7 \<noteq> unspecified" by simp
  moreover from a have "dimension (createLayout ?l) ! 2 = 1" by simp
  ultimately show ?thesis by simp
qed

text \<open>
  C9 as stated fails at the input it names: with all eight slots unspecified the Fad slot is
  slot 0, whose extent is the sentinel, and that value is stored into slot 7.
\<close>

theorem createLayout_all_unspecified_counterexample:
  "dimension (createLayout \<lparr>dimension = [unspecified, unspecified, unspecified, unspecified,
       unspecified, unspecified, unspecified, unspecified]\<rparr>) ! 7 = unspecified"
  by (simp add: createLayout_def Layout_ctor_def computeRank_layout_def computeRank_def Let_def)

subsection \<open>The rank-indexed transfer rules\<close>

lemma all_less7: "(\<forall>i<7. P i) = (P 0 \<and> P 1 \<and> P 2 \<and> P 3 \<and> P 4 \<and> P 5 \<and> P (6::nat))"
proof -
  have "i < 7 \<longleftrightarrow> i = 0 \<or> i = 1 \<or> i = 2 \<or> i = 3 \<or> i = 4 \<or> i = 5 \<or> i = 6" for i :: nat
    by arith
  then show ?thesis by auto
qed

lemma le7_cases:
  assumes "R \<le> 7"
  obtains "R = 0" | "R = 1" | "R = 2" | "R = 3" | "R = 4" | "R = 5" | "R = 6" | "R = (7::nat)"
  using assms by arith

lemma extent_simps:
  "extent d 0 = N0 d" "extent d 1 = N1 d" "extent d 2 = N2 d" "extent d 3 = N3 d"
  "extent d 4 = N4 d" "extent d 5 = N5 d" "extent d 6 = N6 d" "extent d 7 = N7 d"
  "extent d (Suc 0) = N1 d"
  by (simp_all add: extent_def)

lemma stride_slot_simps:
  "stride_slot s 0 = S0 s" "stride_slot s 1 = S1 s" "stride_slot s 2 = S2 s"
  "stride_slot s 3 = S3 s" "stride_slot s 4 = S4 s" "stride_slot s 5 = S5 s"
  "stride_slot s 6 = S6 s" "stride_slot s 7 = S7 s" "stride_slot s (Suc 0) = S1 s"
  by (simp_all add: stride_slot_def)

lemma AssignFadDimStride_Some:
  "R \<le> 7 \<Longrightarrow> \<exists>d'. AssignFadDimStride R StaticDim dst src = Some d'"
  by (simp add: AssignFadDimStride_def)

lemma AssignFadDimStride_slots:
  assumes R: "R \<le> 7" and eq: "AssignFadDimStride R StaticDim dst src = Some d'"
  shows "(\<forall>i<7. extent (m_dim d') i = (if i < R then extent (m_dim src) i else 1)) \<and>
         extent (m_dim d') 7 =
           (if StaticDim = 0 then extent (m_dim src) R else extent (m_dim dst) 7) \<and>
         (\<forall>i<7. stride_slot (m_stride d') i =
                  (if i < R then stride_slot (m_stride src) i else 0)) \<and>
         stride_slot (m_stride d') 7 = stride_slot (m_stride src) R"
  using R
proof (cases R rule: le7_cases)
  case 1 with eq show ?thesis
    by (auto simp add: AssignFadDimStride_def AssignFadDimStride_0_def AssignDim7_def all_less7 extent_simps stride_slot_simps)
next
  case 2 with eq show ?thesis
    by (auto simp add: AssignFadDimStride_def AssignFadDimStride_1_def AssignDim7_def all_less7 extent_simps stride_slot_simps)
next
  case 3 with eq show ?thesis
    by (auto simp add: AssignFadDimStride_def AssignFadDimStride_2_def AssignDim7_def all_less7 extent_simps stride_slot_simps)
next
  case 4 with eq show ?thesis
    by (auto simp add: AssignFadDimStride_def AssignFadDimStride_3_def AssignDim7_def all_less7 extent_simps stride_slot_simps)
next
  case 5 with eq show ?thesis
    by (auto simp add: AssignFadDimStride_def AssignFadDimStride_4_def AssignDim7_def all_less7 extent_simps stride_slot_simps)
next
  case 6 with eq show ?thesis
    by (auto simp add: AssignFadDimStride_def AssignFadDimStride_5_def AssignDim7_def all_less7 extent_simps stride_slot_simps)
next
  case 7 with eq show ?thesis
    by (auto simp add: AssignFadDimStride_def AssignFadDimStride_6_def AssignDim7_def all_less7 extent_simps stride_slot_simps)
next
  case 8 with eq show ?thesis
    by (auto simp add: AssignFadDimStride_def AssignFadDimStride_7_def AssignDim7_def all_less7 extent_simps stride_slot_simps)
qed

lemma ViewOffset_slots_eqI:
  assumes "\<forall>i<7. extent (m_dim a) i = extent (m_dim b) i" "extent (m_dim a) 7 = extent (m_dim b) 7"
    "\<forall>i<7. stride_slot (m_stride a) i = stride_slot (m_stride b) i"
    "stride_slot (m_stride a) 7 = stride_slot (m_stride b) 7"
  shows "a = (b::ViewOffset)"
  using assms by (simp add: all_less7 extent_simps stride_slot_simps)

text \<open>
  C2 (as the code has it). For every rank \<open>R\<close> from 0 to 7 and every source descriptor, the
  rank-\<open>R\<close> rule returns a destination whose extent slots below \<open>R\<close> are the source's,
  whose extent slots \<open>R .. 6\<close> are 1, whose stride slots below \<open>R\<close> are the source's,
  whose stride slots \<open>R .. 6\<close> are 0 and whose stride slot 7 is the source's stride at
  \<open>R\<close>. Extent slot 7 is the source's extent at \<open>R\<close> when the static width is 0, and is
  left as it was in the destination when the static width is not 0.
\<close>

theorem AssignFadDimStride_transfer:
  assumes "R \<le> 7"
  shows "\<exists>d'. AssignFadDimStride R StaticDim dst src = Some d' \<and>
         (\<forall>i<7. extent (m_dim d') i = (if i < R then extent (m_dim src) i else 1)) \<and>
         extent (m_dim d') 7 =
           (if StaticDim = 0 then extent (m_dim src) R else extent (m_dim dst) 7) \<and>
         (\<forall>i<7. stride_slot (m_stride d') i =
                  (if i < R then stride_slot (m_stride src) i else 0)) \<and>
         stride_slot (m_stride d') 7 = stride_slot (m_stride src) R"
proof -
  from assms obtain d' where d': "AssignFadDimStride R StaticDim dst src = Some d'"
    using AssignFadDimStride_Some by blast
  from AssignFadDimStride_slots [OF assms d'] d' show ?thesis by blast
qed

theorem AssignFadDimStride_transfer_witness:
  "(1::nat) \<le> 7 \<and>
   (\<exists>d'. AssignFadDimStride 1 0
      \<lparr>m_dim = \<lparr>N0 = 0, N1 = 0, N2 = 0, N3 = 0, N4 = 0, N5 = 0, N6 = 0, N7 = 0\<rparr>,
       m_stride = \<lparr>S0 = 0, S1 = 0, S2 = 0, S3 = 0, S4 = 0, S5 = 0, S6 = 0, S7 = 0\<rparr>\<rparr>
      \<lparr>m_dim = \<lparr>N0 = 4, N1 = 5, N2 = 1, N3 = 1, N4 = 1, N5 = 1, N6 = 1, N7 = 1\<rparr>,
       m_stride = \<lparr>S0 = 5, S1 = 1, S2 = 0, S3 = 0, S4 = 0, S5 = 0, S6 = 0, S7 = 0\<rparr>\<rparr> = Some d' \<and>
      extent (m_dim d') 0 = 4 \<and> extent (m_dim d') 1 = 1 \<and> extent (m_dim d') 7 = 5 \<and>
      stride_slot (m_stride d') 0 = 5 \<and> stride_slot (m_stride d') 1 = 0 \<and>
      stride_slot (m_stride d') 7 = 1)"
  using AssignFadDimStride_transfer [of 1 0
      "\<lparr>m_dim = \<lparr>N0 = 0, N1 = 0, N2 = 0, N3 = 0, N4 = 0, N5 = 0, N6 = 0, N7 = 0\<rparr>,
       m_stride = \<lparr>S0 = 0, S1 = 0, S2 = 0, S3 = 0, S4 = 0, S5 = 0, S6 = 0, S7 = 0\<rparr>\<rparr>"
      "\<lparr>m_dim = \<lparr>N0 = 4, N1 = 5, N2 = 1, N3 = 1, N4 = 1, N5 = 1, N6 = 1, N7 = 1\<rparr>,
       m_stride = \<lparr>S0 = 5, S1 = 1, S2 = 0, S3 = 0, S4 = 0, S5 = 0, S6 = 0, S7 = 0\<rparr>\<rparr>"]
  by (auto simp add: all_less7 extent_simps stride_slot_simps)

text \<open>
  C2 as stated fails for a nonzero static width: the rule of rank 1 with static width 3
  leaves extent slot 7 of the destination at 3, while the source's extent at position 1 is 5.
\<close>

theorem AssignFadDimStride_static_counterexample:
  "AssignFadDimStride 1 3 \<lparr>m_dim = \<lparr>N0 = 0, N1 = 0, N2 = 0, N3 = 0, N4 = 0, N5 = 0, N6 = 0, N7 = 3\<rparr>, m_stride = \<lparr>S0 = 0, S1 = 0, S2 = 0, S3 = 0, S4 = 0, S5 = 0, S6 = 0, S7 = 0\<rparr>\<rparr> \<lparr>m_dim = \<lparr>N0 = 4, N1 = 5, N2 = 1, N3 = 1, N4 = 1, N5 = 1, N6 = 1, N7 = 1\<rparr>, m_stride = \<lparr>S0 = 5, S1 = 1, S2 = 0, S3 = 0, S4 = 0, S5 = 0, S6 = 0, S7 = 0\<rparr>\<rparr> = Some (AssignFadDimStride_1 3 \<lparr>m_dim = \<lparr>N0 = 0, N1 = 0, N2 = 0, N3 = 0, N4 = 0, N5 = 0, N6 = 0, N7 = 3\<rparr>, m_stride = \<lparr>S0 = 0, S1 = 0, S2 = 0, S3 = 0, S4 = 0, S5 = 0, S6 = 0, S7 = 0\<rparr>\<rparr> \<lparr>m_dim = \<lparr>N0 = 4, N1 = 5, N2 = 1, N3 = 1, N4 = 1, N5 = 1, N6 = 1, N7 = 1\<rparr>, m_stride = \<lparr>S0 = 5, S1 = 1, S2 = 0, S3 = 0, S4 = 0, S5 = 0, S6 = 0, S7 = 0\<rparr>\<rparr>) \<and>
   N7 (m_dim (AssignFadDimStride_1 3 \<lparr>m_dim = \<lparr>N0 = 0, N1 = 0, N2 = 0, N3 = 0, N4 = 0, N5 = 0, N6 = 0, N7 = 3\<rparr>, m_stride = \<lparr>S0 = 0, S1 = 0, S2 = 0, S3 = 0, S4 = 0, S5 = 0, S6 = 0, S7 = 0\<rparr>\<rparr> \<lparr>m_dim = \<lparr>N0 = 4, N1 = 5, N2 = 1, N3 = 1, N4 = 1, N5 = 1, N6 = 1, N7 = 1\<rparr>, m_stride = \<lparr>S0 = 5, S1 = 1, S2 = 0, S3 = 0, S4 = 0, S5 = 0, S6 = 0, S7 = 0\<rparr>\<rparr>)) = 3 \<and>
   extent (m_dim \<lparr>m_dim = \<lparr>N0 = 4, N1 = 5, N2 = 1, N3 = 1, N4 = 1, N5 = 1, N6 = 1, N7 = 1\<rparr>, m_stride = \<lparr>S0 = 5, S1 = 1, S2 = 0, S3 = 0, S4 = 0, S5 = 0, S6 = 0, S7 = 0\<rparr>\<rparr>) 1 = 5"
  by (simp add: AssignFadDimStride_def AssignFadDimStride_1_def AssignDim7_def extent_def)

text \<open>
  C5 (as the code has it). Applying the rank-\<open>R\<close> rule to its own output, with that output
  as the source, leaves extent slots 0 to 6 and stride slots 0 to 6 unchanged. For
  \<open>R = 7\<close> slot 7 is unchanged too, so the rank-7 rule is idempotent. For \<open>R < 7\<close> the
  second application stores the output's slot \<open>R\<close> into slot 7: stride slot 7 becomes 0
  and, when the static width is 0, extent slot 7 becomes 1. So the output is unchanged
  exactly when \<open>R = 7\<close>, or the source's stride at \<open>R\<close> is 0 and either the static width
  is not 0 or the source's extent at \<open>R\<close> is 1.
\<close>

theorem AssignFadDimStride_twice:
  assumes R: "R \<le> 7"
    and d1: "AssignFadDimStride R StaticDim dst src = Some d1"
  shows "\<exists>d2. AssignFadDimStride R StaticDim d1 d1 = Some d2 \<and>
         (\<forall>i<7. extent (m_dim d2) i = extent (m_dim d1) i) \<and>
         (\<forall>i<7. stride_slot (m_stride d2) i = stride_slot (m_stride d1) i) \<and>
         (R = 7 \<longrightarrow> d2 = d1) \<and>
         (R < 7 \<longrightarrow> stride_slot (m_stride d2) 7 = 0 \<and>
                    extent (m_dim d2) 7 = (if StaticDim = 0 then 1 else extent (m_dim d1) 7)) \<and>
         (d2 = d1 \<longleftrightarrow>
            R = 7 \<or> (stride_slot (m_stride src) R = 0 \<and>
                     (StaticDim \<noteq> 0 \<or> extent (m_dim src) R = 1)))"
proof -
  from R obtain d2 where d2: "AssignFadDimStride R StaticDim d1 d1 = Some d2"
    using AssignFadDimStride_Some by blast
  note s1 = AssignFadDimStride_slots [OF R d1]
  note s2 = AssignFadDimStride_slots [OF R d2]
  have a: "\<forall>i<7. extent (m_dim d2) i = extent (m_dim d1) i"
    using s1 s2 by simp
  have b: "\<forall>i<7. stride_slot (m_stride d2) i = stride_slot (m_stride d1) i"
    using s1 s2 by simp
  have c7: "stride_slot (m_stride d2) 7 = stride_slot (m_stride d1) 7"
       "extent (m_dim d2) 7 = extent (m_dim d1) 7" if "R = 7"
    using s1 s2 that by simp_all
  have c: "d2 = d1" if "R = 7"
    using a b c7 [OF that] by (intro ViewOffset_slots_eqI) simp_all
  have d: "stride_slot (m_stride d2) 7 = 0 \<and>
           extent (m_dim d2) 7 = (if StaticDim = 0 then 1 else extent (m_dim d1) 7)" if "R < 7"
    using s1 s2 that by simp
  have e: "d2 = d1 \<longleftrightarrow>
            R = 7 \<or> (stride_slot (m_stride src) R = 0 \<and>
                     (StaticDim \<noteq> 0 \<or> extent (m_dim src) R = 1))"
  proof (cases "R = 7")
    case True with c show ?thesis by simp
  next
    case False
    with R have lt: "R < 7" by simp
    have "d2 = d1 \<longleftrightarrow> stride_slot (m_stride d2) 7 = stride_slot (m_stride d1) 7 \<and>
                       extent (m_dim d2) 7 = extent (m_dim d1) 7"
      using a b by (auto intro: ViewOffset_slots_eqI)
    also have "\<dots> \<longleftrightarrow> stride_slot (m_stride src) R = 0 \<and>
                     (StaticDim \<noteq> 0 \<or> extent (m_dim src) R = 1)"
      using s1 d [OF lt] by auto
    finally show ?thesis using False by simp
  qed
  from d2 a b c d e show ?thesis by blast
qed

theorem AssignFadDimStride_twice_witness:
  "(1::nat) \<le> 7 \<and> AssignFadDimStride 1 0 \<lparr>m_dim = \<lparr>N0 = 0, N1 = 0, N2 = 0, N3 = 0, N4 = 0, N5 = 0, N6 = 0, N7 = 0\<rparr>, m_stride = \<lparr>S0 = 0, S1 = 0, S2 = 0, S3 = 0, S4 = 0, S5 = 0, S6 = 0, S7 = 0\<rparr>\<rparr> \<lparr>m_dim = \<lparr>N0 = 4, N1 = 5, N2 = 1, N3 = 1, N4 = 1, N5 = 1, N6 = 1, N7 = 1\<rparr>, m_stride = \<lparr>S0 = 5, S1 = 1, S2 = 0, S3 = 0, S4 = 0, S5 = 0, S6 = 0, S7 = 0\<rparr>\<rparr> = Some \<lparr>m_dim = \<lparr>N0 = 4, N1 = 1, N2 = 1, N3 = 1, N4 = 1, N5 = 1, N6 = 1, N7 = 5\<rparr>, m_stride = \<lparr>S0 = 5, S1 = 0, S2 = 0, S3 = 0, S4 = 0, S5 = 0, S6 = 0, S7 = 1\<rparr>\<rparr> \<and>
   AssignFadDimStride 1 0 \<lparr>m_dim = \<lparr>N0 = 4, N1 = 1, N2 = 1, N3 = 1, N4 = 1, N5 = 1, N6 = 1, N7 = 5\<rparr>, m_stride = \<lparr>S0 = 5, S1 = 0, S2 = 0, S3 = 0, S4 = 0, S5 = 0, S6 = 0, S7 = 1\<rparr>\<rparr> \<lparr>m_dim = \<lparr>N0 = 4, N1 = 1, N2 = 1, N3 = 1, N4 = 1, N5 = 1, N6 = 1, N7 = 5\<rparr>, m_stride = \<lparr>S0 = 5, S1 = 0, S2 = 0, S3 = 0, S4 = 0, S5 = 0, S6 = 0, S7 = 1\<rparr>\<rparr> = Some \<lparr>m_dim = \<lparr>N0 = 4, N1 = 1, N2 = 1, N3 = 1, N4 = 1, N5 = 1, N6 = 1, N7 = 1\<rparr>, m_stride = \<lparr>S0 = 5, S1 = 0, S2 = 0, S3 = 0, S4 = 0, S5 = 0, S6 = 0, S7 = 0\<rparr>\<rparr>"
proof -
  have R: "(1::nat) \<le> 7" by simp
  have d1: "AssignFadDimStride 1 0 \<lparr>m_dim = \<lparr>N0 = 0, N1 = 0, N2 = 0, N3 = 0, N4 = 0, N5 = 0, N6 = 0, N7 = 0\<rparr>, m_stride = \<lparr>S0 = 0, S1 = 0, S2 = 0, S3 = 0, S4 = 0, S5 = 0, S6 = 0, S7 = 0\<rparr>\<rparr> \<lparr>m_dim = \<lparr>N0 = 4, N1 = 5, N2 = 1, N3 = 1, N4 = 1, N5 = 1, N6 = 1, N7 = 1\<rparr>, m_stride = \<lparr>S0 = 5, S1 = 1, S2 = 0, S3 = 0, S4 = 0, S5 = 0, S6 = 0, S7 = 0\<rparr>\<rparr> = Some \<lparr>m_dim = \<lparr>N0 = 4, N1 = 1, N2 = 1, N3 = 1, N4 = 1, N5 = 1, N6 = 1, N7 = 5\<rparr>, m_stride = \<lparr>S0 = 5, S1 = 0, S2 = 0, S3 = 0, S4 = 0, S5 = 0, S6 = 0, S7 = 1\<rparr>\<rparr>"
    by (simp add: AssignFadDimStride_def AssignFadDimStride_1_def AssignDim7_def)
  from AssignFadDimStride_twice [OF R d1] R d1 show ?thesis
    by (simp add: AssignFadDimStride_def AssignFadDimStride_1_def AssignDim7_def)
qed

text \<open>
  C5 as stated fails: the rank-1 rule with dynamic width, applied to a source of extents
  \<open>4, 5\<close> and strides \<open>5, 1\<close>, gives slot 7 extent 5 and stride 1; applied again to that
  output it gives slot 7 extent 1 and stride 0.
\<close>

theorem AssignFadDimStride_not_idempotent_counterexample:
  "AssignFadDimStride 1 0 \<lparr>m_dim = \<lparr>N0 = 0, N1 = 0, N2 = 0, N3 = 0, N4 = 0, N5 = 0, N6 = 0, N7 = 0\<rparr>, m_stride = \<lparr>S0 = 0, S1 = 0, S2 = 0, S3 = 0, S4 = 0, S5 = 0, S6 = 0, S7 = 0\<rparr>\<rparr> \<lparr>m_dim = \<lparr>N0 = 4, N1 = 5, N2 = 1, N3 = 1, N4 = 1, N5 = 1, N6 = 1, N7 = 1\<rparr>, m_stride = \<lparr>S0 = 5, S1 = 1, S2 = 0, S3 = 0, S4 = 0, S5 = 0, S6 = 0, S7 = 0\<rparr>\<rparr> = Some \<lparr>m_dim = \<lparr>N0 = 4, N1 = 1, N2 = 1, N3 = 1, N4 = 1, N5 = 1, N6 = 1, N7 = 5\<rparr>, m_stride = \<lparr>S0 = 5, S1 = 0, S2 = 0, S3 = 0, S4 = 0, S5 = 0, S6 = 0, S7 = 1\<rparr>\<rparr> \<and>
   AssignFadDimStride 1 0 \<lparr>m_dim = \<lparr>N0 = 4, N1 = 1, N2 = 1, N3 = 1, N4 = 1, N5 = 1, N6 = 1, N7 = 5\<rparr>, m_stride = \<lparr>S0 = 5, S1 = 0, S2 = 0, S3 = 0, S4 = 0, S5 = 0, S6 = 0, S7 = 1\<rparr>\<rparr> \<lparr>m_dim = \<lparr>N0 = 4, N1 = 1, N2 = 1, N3 = 1, N4 = 1, N5 = 1, N6 = 1, N7 = 5\<rparr>, m_stride = \<lparr>S0 = 5, S1 = 0, S2 = 0, S3 = 0, S4 = 0, S5 = 0, S6 = 0, S7 = 1\<rparr>\<rparr> = Some \<lparr>m_dim = \<lparr>N0 = 4, N1 = 1, N2 = 1, N3 = 1, N4 = 1, N5 = 1, N6 = 1, N7 = 1\<rparr>, m_stride = \<lparr>S0 = 5, S1 = 0, S2 = 0, S3 = 0, S4 = 0, S5 = 0, S6 = 0, S7 = 0\<rparr>\<rparr> \<and>
   \<lparr>m_dim = \<lparr>N0 = 4, N1 = 1, N2 = 1, N3 = 1, N4 = 1, N5 = 1, N6 = 1, N7 = 1\<rparr>, m_stride = \<lparr>S0 = 5, S1 = 0, S2 = 0, S3 = 0, S4 = 0, S5 = 0, S6 = 0, S7 = 0\<rparr>\<rparr> \<noteq> \<lparr>m_dim = \<lparr>N0 = 4, N1 = 1, N2 = 1, N3 = 1, N4 = 1, N5 = 1, N6 = 1, N7 = 5\<rparr>, m_stride = \<lparr>S0 = 5, S1 = 0, S2 = 0, S3 = 0, S4 = 0, S5 = 0, S6 = 0, S7 = 1\<rparr>\<rparr>"
  by (simp add: AssignFadDimStride_def AssignFadDimStride_1_def AssignDim7_def)

subsection \<open>AssignDim and the static derivative width\<close>

lemma AssignDim_Some:
  "R \<le> 7 \<Longrightarrow> \<exists>d'. AssignDim R FadStaticDim dst src = Some d'"
  by (simp add: AssignDim_def)

lemma AssignDim_slots:
  assumes R: "R \<le> 7" and eq: "AssignDim R FadStaticDim dst src = Some d'"
  shows "(\<forall>i<7. extent (m_dim d') i = (if i < R then extent (m_dim src) i else 1)) \<and>
         extent (m_dim d') 7 =
           (if FadStaticDim = 0 then extent (m_dim src) R else extent (m_dim dst) 7) \<and>
         m_stride d' = m_stride dst"
  using R
proof (cases R rule: le7_cases)
  case 1 with eq show ?thesis
    by (auto simp add: AssignDim_def AssignDim_0_def AssignFadDim7_def all_less7 extent_simps)
next
  case 2 with eq show ?thesis
    by (auto simp add: AssignDim_def AssignDim_1_def AssignFadDim7_def all_less7 extent_simps)
next
  case 3 with eq show ?thesis
    by (auto simp add: AssignDim_def AssignDim_2_def AssignFadDim7_def all_less7 extent_simps)
next
  case 4 with eq show ?thesis
    by (auto simp add: AssignDim_def AssignDim_3_def AssignFadDim7_def all_less7 extent_simps)
next
  case 5 with eq show ?thesis
    by (auto simp add: AssignDim_def AssignDim_4_def AssignFadDim7_def all_less7 extent_simps)
next
  case 6 with eq show ?thesis
    by (auto simp add: AssignDim_def AssignDim_5_def AssignFadDim7_def all_less7 extent_simps)
next
  case 7 with eq show ?thesis
    by (auto simp add: AssignDim_def AssignDim_6_def AssignFadDim7_def all_less7 extent_simps)
next
  case 8 with eq show ?thesis
    by (auto simp add: AssignDim_def AssignDim_7_def AssignFadDim7_def all_less7 extent_simps)
qed

text \<open>
  C6. For every rank \<open>R\<close> from 0 to 7, both families of rules (\<open>AssignFadDimStride\<close>,
  through \<open>AssignDim7\<close>, and \<open>AssignDim\<close>, through \<open>AssignFadDim7\<close>) leave extent slot 7
  of the destination unchanged when the static width is not 0, and set it to the source's
  extent at position \<open>R\<close> when the static width is 0.
\<close>

theorem static_width_leaves_slot7:
  assumes R: "R \<le> 7"
  shows "(\<exists>d'. AssignFadDimStride R StaticDim dst src = Some d' \<and>
            N7 (m_dim d') = (if StaticDim = 0 then extent (m_dim src) R else N7 (m_dim dst))) \<and>
         (\<exists>d'. AssignDim R StaticDim dst src = Some d' \<and>
            N7 (m_dim d') = (if StaticDim = 0 then extent (m_dim src) R else N7 (m_dim dst))) \<and>
         AssignDim7 StaticDim (m_dim dst) x = (if StaticDim = 0 then (m_dim dst)\<lparr>N7 := x\<rparr> else m_dim dst) \<and>
         m_dim (AssignFadDim7 StaticDim dst src R) =
           (if StaticDim = 0 then (m_dim dst)\<lparr>N7 := extent (m_dim src) R\<rparr> else m_dim dst)"
proof -
  from R obtain d1 where d1: "AssignFadDimStride R StaticDim dst src = Some d1"
    using AssignFadDimStride_Some by blast
  from R obtain d2 where d2: "AssignDim R StaticDim dst src = Some d2"
    using AssignDim_Some by blast
  have 1: "N7 (m_dim d1) = (if StaticDim = 0 then extent (m_dim src) R else N7 (m_dim dst))"
    using AssignFadDimStride_slots [OF R d1] by (simp add: extent_simps)
  have 2: "N7 (m_dim d2) = (if StaticDim = 0 then extent (m_dim src) R else N7 (m_dim dst))"
    using AssignDim_slots [OF R d2] by (simp add: extent_simps)
  have 3: "AssignDim7 StaticDim (m_dim dst) x =
             (if StaticDim = 0 then (m_dim dst)\<lparr>N7 := x\<rparr> else m_dim dst)"
    by (simp add: AssignDim7_def)
  have 4: "m_dim (AssignFadDim7 StaticDim dst src R) =
           (if StaticDim = 0 then (m_dim dst)\<lparr>N7 := extent (m_dim src) R\<rparr> else m_dim dst)"
    by (simp add: AssignFadDim7_def)
  from d1 d2 1 2 3 4 show ?thesis by blast
qed

theorem static_width_leaves_slot7_witness:
  "(2::nat) \<le> 7 \<and>
   (\<exists>d'. AssignFadDimStride 2 3
       \<lparr>m_dim = \<lparr>N0 = 0, N1 = 0, N2 = 0, N3 = 0, N4 = 0, N5 = 0, N6 = 0, N7 = 4\<rparr>,
        m_stride = \<lparr>S0 = 0, S1 = 0, S2 = 0, S3 = 0, S4 = 0, S5 = 0, S6 = 0, S7 = 0\<rparr>\<rparr>
       \<lparr>m_dim = \<lparr>N0 = 2, N1 = 5, N2 = 6, N3 = 1, N4 = 1, N5 = 1, N6 = 1, N7 = 1\<rparr>,
        m_stride = \<lparr>S0 = 30, S1 = 6, S2 = 1, S3 = 0, S4 = 0, S5 = 0, S6 = 0, S7 = 0\<rparr>\<rparr> = Some d' \<and> N7 (m_dim d') = 4) \<and>
   (\<exists>d'. AssignDim 2 3
       \<lparr>m_dim = \<lparr>N0 = 0, N1 = 0, N2 = 0, N3 = 0, N4 = 0, N5 = 0, N6 = 0, N7 = 4\<rparr>,
        m_stride = \<lparr>S0 = 0, S1 = 0, S2 = 0, S3 = 0, S4 = 0, S5 = 0, S6 = 0, S7 = 0\<rparr>\<rparr>
       \<lparr>m_dim = \<lparr>N0 = 2, N1 = 5, N2 = 6, N3 = 1, N4 = 1, N5 = 1, N6 = 1, N7 = 1\<rparr>,
        m_stride = \<lparr>S0 = 30, S1 = 6, S2 = 1, S3 = 0, S4 = 0, S5 = 0, S6 = 0, S7 = 0\<rparr>\<rparr> = Some d' \<and> N7 (m_dim d') = 4) \<and>
   (\<exists>d'. AssignFadDimStride 2 0
       \<lparr>m_dim = \<lparr>N0 = 0, N1 = 0, N2 = 0, N3 = 0, N4 = 0, N5 = 0, N6 = 0, N7 = 4\<rparr>,
        m_stride = \<lparr>S0 = 0, S1 = 0, S2 = 0, S3 = 0, S4 = 0, S5 = 0, S6 = 0, S7 = 0\<rparr>\<rparr>
       \<lparr>m_dim = \<lparr>N0 = 2, N1 = 5, N2 = 6, N3 = 1, N4 = 1, N5 = 1, N6 = 1, N7 = 1\<rparr>,
        m_stride = \<lparr>S0 = 30, S1 = 6, S2 = 1, S3 = 0, S4 = 0, S5 = 0, S6 = 0, S7 = 0\<rparr>\<rparr> = Some d' \<and> N7 (m_dim d') = 6) \<and>
   (\<exists>d'. AssignDim 2 0
       \<lparr>m_dim = \<lparr>N0 = 0, N1 = 0, N2 = 0, N3 = 0, N4 = 0, N5 = 0, N6 = 0, N7 = 4\<rparr>,
        m_stride = \<lparr>S0 = 0, S1 = 0, S2 = 0, S3 = 0, S4 = 0, S5 = 0, S6 = 0, S7 = 0\<rparr>\<rparr>
       \<lparr>m_dim = \<lparr>N0 = 2, N1 = 5, N2 = 6, N3 = 1, N4 = 1, N5 = 1, N6 = 1, N7 = 1\<rparr>,
        m_stride = \<lparr>S0 = 30, S1 = 6, S2 = 1, S3 = 0, S4 = 0, S5 = 0, S6 = 0, S7 = 0\<rparr>\<rparr> = Some d' \<and> N7 (m_dim d') = 6)"
proof -
  have R: "(2::nat) \<le> 7" by simp
  from static_width_leaves_slot7 [OF R, where StaticDim = 3 and dst = "\<lparr>m_dim = \<lparr>N0 = 0, N1 = 0, N2 = 0, N3 = 0, N4 = 0, N5 = 0, N6 = 0, N7 = 4\<rparr>,
        m_stride = \<lparr>S0 = 0, S1 = 0, S2 = 0, S3 = 0, S4 = 0, S5 = 0, S6 = 0, S7 = 0\<rparr>\<rparr>"
      and src = "\<lparr>m_dim = \<lparr>N0 = 2, N1 = 5, N2 = 6, N3 = 1, N4 = 1, N5 = 1, N6 = 1, N7 = 1\<rparr>,
        m_stride = \<lparr>S0 = 30, S1 = 6, S2 = 1, S3 = 0, S4 = 0, S5 = 0, S6 = 0, S7 = 0\<rparr>\<rparr>"]
    static_width_leaves_slot7 [OF R, where StaticDim = 0 and dst = "\<lparr>m_dim = \<lparr>N0 = 0, N1 = 0, N2 = 0, N3 = 0, N4 = 0, N5 = 0, N6 = 0, N7 = 4\<rparr>,
        m_stride = \<lparr>S0 = 0, S1 = 0, S2 = 0, S3 = 0, S4 = 0, S5 = 0, S6 = 0, S7 = 0\<rparr>\<rparr>"
      and src = "\<lparr>m_dim = \<lparr>N0 = 2, N1 = 5, N2 = 6, N3 = 1, N4 = 1, N5 = 1, N6 = 1, N7 = 1\<rparr>,
        m_stride = \<lparr>S0 = 30, S1 = 6, S2 = 1, S3 = 0, S4 = 0, S5 = 0, S6 = 0, S7 = 0\<rparr>\<rparr>"]
  show ?thesis by (simp add: extent_simps)
qed

subsection \<open>Assignment of a View of Fad to a DynRankView\<close>

lemma extent_product_0: "extent_product d 0 = 1"
  by (simp add: extent_product_def)

lemma extent_product_Suc: "extent_product d (Suc n) = extent_product d n * unat (extent d n)"
  by (simp add: extent_product_def)

lemma extent_product_numeral:
  "extent_product d (numeral k) =
     extent_product d (pred_numeral k) * unat (extent d (pred_numeral k))"
  by (simp add: numeral_eq_Suc extent_product_Suc)

lemma AssignDim_product:
  assumes R: "R \<le> 7" and eq: "AssignDim R FadStaticDim dst src = Some d'"
  shows "dimension_product (m_dim d') =
           extent_product (m_dim src) R *
           unat (if FadStaticDim = 0 then extent (m_dim src) R else N7 (m_dim dst))"
  using R
proof (cases R rule: le7_cases)
  case 1 with eq show ?thesis
    by (auto simp add: AssignDim_def AssignDim_0_def AssignFadDim7_def dimension_product_def
          extent_product_0 extent_product_Suc extent_product_numeral extent_simps)
next
  case 2 with eq show ?thesis
    by (auto simp add: AssignDim_def AssignDim_1_def AssignFadDim7_def dimension_product_def
          extent_product_0 extent_product_Suc extent_product_numeral extent_simps)
next
  case 3 with eq show ?thesis
    by (auto simp add: AssignDim_def AssignDim_2_def AssignFadDim7_def dimension_product_def
          extent_product_0 extent_product_Suc extent_product_numeral extent_simps)
next
  case 4 with eq show ?thesis
    by (auto simp add: AssignDim_def AssignDim_3_def AssignFadDim7_def dimension_product_def
          extent_product_0 extent_product_Suc extent_product_numeral extent_simps)
next
  case 5 with eq show ?thesis
    by (auto simp add: AssignDim_def AssignDim_4_def AssignFadDim7_def dimension_product_def
          extent_product_0 extent_product_Suc extent_product_numeral extent_simps)
next
  case 6 with eq show ?thesis
    by (auto simp add: AssignDim_def AssignDim_5_def AssignFadDim7_def dimension_product_def
          extent_product_0 extent_product_Suc extent_product_numeral extent_simps)
next
  case 7 with eq show ?thesis
    by (auto simp add: AssignDim_def AssignDim_6_def AssignFadDim7_def dimension_product_def
          extent_product_0 extent_product_Suc extent_product_numeral extent_simps)
next
  case 8 with eq show ?thesis
    by (auto simp add: AssignDim_def AssignDim_7_def AssignFadDim7_def dimension_product_def
          extent_product_0 extent_product_Suc extent_product_numeral extent_simps)
qed

lemma assign_Some:
  assumes "AssignDim SrcTraits_rank FadStaticDim (m_offset (m_map dst)) (m_offset (m_map src)) = Some off"
  shows "assign DstSpecialize SrcTraits_rank FadStaticDim src_Rank dst src =
     Some (dst\<lparr>m_rank := src_Rank,
               m_map := assign_fad_size DstSpecialize
                  ((m_map dst)\<lparr>m_handle := m_handle (m_map src),
                               m_offset := off\<lparr>m_stride := m_stride (m_offset (m_map src))\<rparr>\<rparr>)
                  (m_map src)\<rparr>)"
  using assms by (simp add: assign_def Let_def)

lemma m_offset_assign_fad_size: "m_offset (assign_fad_size S a b) = m_offset a"
  by (simp add: assign_fad_size_def)

text \<open>
  C7 (as the code has it). For every assignment from a source view of rank \<open>R \<le> 7\<close>
  (for an ordinary destination in particular), the product of the eight extents of the
  destination after the assignment equals the product of the source's slots \<open>0 .. R\<close>
  (its \<open>R\<close> spatial extents times its Fad extent) when the static width is 0. When the
  static width is not 0, slot 7 is not written and the product is that of the source's
  \<open>R\<close> spatial extents times the extent the destination already had in slot 7.
\<close>

theorem assign_element_count:
  assumes R: "R \<le> 7"
  shows "\<exists>d'. assign DstSpecialize R FadStaticDim src_Rank dst src = Some d' \<and>
           dimension_product (m_dim (m_offset (m_map d'))) =
             (if FadStaticDim = 0
              then extent_product (m_dim (m_offset (m_map src))) (Suc R)
              else extent_product (m_dim (m_offset (m_map src))) R *
                   unat (N7 (m_dim (m_offset (m_map dst)))))"
proof -
  from R obtain off
    where off: "AssignDim R FadStaticDim (m_offset (m_map dst)) (m_offset (m_map src)) = Some off"
    using AssignDim_Some by blast
  from AssignDim_product [OF R off] assign_Some [OF off, of DstSpecialize src_Rank]
  show ?thesis
    by (simp add: m_offset_assign_fad_size extent_product_Suc)
qed

theorem assign_element_count_witness:
  "(1::nat) \<le> 7 \<and>
   (\<exists>d'. assign ViewSpecializeVoid 1 0 1
      \<lparr>m_track = 0,
     m_map = \<lparr>m_offset =
       \<lparr>m_dim = \<lparr>N0 = 0, N1 = 0, N2 = 0, N3 = 0, N4 = 0, N5 = 0, N6 = 0, N7 = 1\<rparr>,
        m_stride = \<lparr>S0 = 0, S1 = 0, S2 = 0, S3 = 0, S4 = 0, S5 = 0, S6 = 0, S7 = 0\<rparr>\<rparr>,
      m_handle = 0, m_fad_size = 0, m_fad_stride = 0\<rparr>,
     m_rank = 0\<rparr>
      \<lparr>m_track = 7,
     m_map = \<lparr>m_offset =
       \<lparr>m_dim = \<lparr>N0 = 4, N1 = 3, N2 = 1, N3 = 1, N4 = 1, N5 = 1, N6 = 1, N7 = 1\<rparr>,
        m_stride = \<lparr>S0 = 3, S1 = 1, S2 = 0, S3 = 0, S4 = 0, S5 = 0, S6 = 0, S7 = 0\<rparr>\<rparr>,
      m_handle = 4096, m_fad_size = 3, m_fad_stride = 1\<rparr>\<rparr> = Some d' \<and>
     dimension_product (m_dim (m_offset (m_map d'))) = 12)"
proof -
  have R: "(1::nat) \<le> 7" by simp
  from assign_element_count [OF R, where FadStaticDim = 0 and DstSpecialize = ViewSpecializeVoid
      and src_Rank = 1 and dst = "\<lparr>m_track = 0,
     m_map = \<lparr>m_offset =
       \<lparr>m_dim = \<lparr>N0 = 0, N1 = 0, N2 = 0, N3 = 0, N4 = 0, N5 = 0, N6 = 0, N7 = 1\<rparr>,
        m_stride = \<lparr>S0 = 0, S1 = 0, S2 = 0, S3 = 0, S4 = 0, S5 = 0, S6 = 0, S7 = 0\<rparr>\<rparr>,
      m_handle = 0, m_fad_size = 0, m_fad_stride = 0\<rparr>,
     m_rank = 0\<rparr>"
      and src = "\<lparr>m_track = 7,
     m_map = \<lparr>m_offset =
       \<lparr>m_dim = \<lparr>N0 = 4, N1 = 3, N2 = 1, N3 = 1, N4 = 1, N5 = 1, N6 = 1, N7 = 1\<rparr>,
        m_stride = \<lparr>S0 = 3, S1 = 1, S2 = 0, S3 = 0, S4 = 0, S5 = 0, S6 = 0, S7 = 0\<rparr>\<rparr>,
      m_handle = 4096, m_fad_size = 3, m_fad_stride = 1\<rparr>\<rparr>"]
  show ?thesis
    by (simp add: extent_product_def extent_simps)
qed

text \<open>
  C7 as stated fails for a nonzero static width: a rank-1 source with extents \<open>4, 3\<close> and
  static width 3 has 12 elements; the ordinary destination, whose slot 7 held 1, ends with
  extents \<open>4, 1, 1, 1, 1, 1, 1, 1\<close>, a product of 4.
\<close>

theorem assign_static_width_counterexample:
  "assign ViewSpecializeVoid 1 3 1
      \<lparr>m_track = 0,
     m_map = \<lparr>m_offset =
       \<lparr>m_dim = \<lparr>N0 = 0, N1 = 0, N2 = 0, N3 = 0, N4 = 0, N5 = 0, N6 = 0, N7 = 1\<rparr>,
        m_stride = \<lparr>S0 = 0, S1 = 0, S2 = 0, S3 = 0, S4 = 0, S5 = 0, S6 = 0, S7 = 0\<rparr>\<rparr>,
      m_handle = 0, m_fad_size = 0, m_fad_stride = 0\<rparr>,
     m_rank = 0\<rparr>
      \<lparr>m_track = 7,
     m_map = \<lparr>m_offset =
       \<lparr>m_dim = \<lparr>N0 = 4, N1 = 3, N2 = 1, N3 = 1, N4 = 1, N5 = 1, N6 = 1, N7 = 1\<rparr>,
        m_stride = \<lparr>S0 = 3, S1 = 1, S2 = 0, S3 = 0, S4 = 0, S5 = 0, S6 = 0, S7 = 0\<rparr>\<rparr>,
      m_handle = 4096, m_fad_size = 3, m_fad_stride = 1\<rparr>\<rparr> =
    Some \<lparr>m_track = 0,
     m_map = \<lparr>m_offset =
       \<lparr>m_dim = \<lparr>N0 = 4, N1 = 1, N2 = 1, N3 = 1, N4 = 1, N5 = 1, N6 = 1, N7 = 1\<rparr>,
        m_stride = \<lparr>S0 = 3, S1 = 1, S2 = 0, S3 = 0, S4 = 0, S5 = 0, S6 = 0, S7 = 0\<rparr>\<rparr>,
      m_handle = 4096, m_fad_size = 0, m_fad_stride = 0\<rparr>,
     m_rank = 1\<rparr> \<and>
   dimension_product (m_dim (m_offset (m_map
      \<lparr>m_track = 0,
     m_map = \<lparr>m_offset =
       \<lparr>m_dim = \<lparr>N0 = 4, N1 = 1, N2 = 1, N3 = 1, N4 = 1, N5 = 1, N6 = 1, N7 = 1\<rparr>,
        m_stride = \<lparr>S0 = 3, S1 = 1, S2 = 0, S3 = 0, S4 = 0, S5 = 0, S6 = 0, S7 = 0\<rparr>\<rparr>,
      m_handle = 4096, m_fad_size = 0, m_fad_stride = 0\<rparr>,
     m_rank = 1\<rparr>))) = 4 \<and>
   extent_product (m_dim (m_offset (m_map
      \<lparr>m_track = 7,
     m_map = \<lparr>m_offset =
       \<lparr>m_dim = \<lparr>N0 = 4, N1 = 3, N2 = 1, N3 = 1, N4 = 1, N5 = 1, N6 = 1, N7 = 1\<rparr>,
        m_stride = \<lparr>S0 = 3, S1 = 1, S2 = 0, S3 = 0, S4 = 0, S5 = 0, S6 = 0, S7 = 0\<rparr>\<rparr>,
      m_handle = 4096, m_fad_size = 3, m_fad_stride = 1\<rparr>\<rparr>))) 2 = 12"
  by (simp add: assign_def AssignDim_def AssignDim_1_def AssignFadDim7_def assign_fad_size_def
        Let_def dimension_product_def extent_product_numeral extent_product_Suc
        extent_product_0 extent_simps)

subsection \<open>The Fad size and stride fields\<close>

lemma of_bool_sum_le7:
  "(of_bool b0 + of_bool b1 + of_bool b2 + of_bool b3 + of_bool b4 + of_bool b5 + of_bool b6 :: nat) \<le> 7"
proof -
  have "(of_bool b :: nat) \<le> 1" for b by simp
  from this [of b0] this [of b1] this [of b2] this [of b3] this [of b4] this [of b5] this [of b6]
  show ?thesis by linarith
qed

lemma subview_Some:
  "\<exists>d'. subview R0 R1 R2 R3 R4 R5 R6 FadStaticDim src_rank src tempdst domain_offset dst = Some d' \<and>
        m_fad_size (m_map d') = m_fad_size (m_map src) \<and>
        m_fad_stride (m_map d') = m_fad_stride (m_map src) \<and>
        m_track d' = m_track src \<and>
        m_handle (m_map d') = m_handle (m_map src) + domain_offset"
proof -
  let ?rank = "of_bool R0 + of_bool R1 + of_bool R2 + of_bool R3 + of_bool R4 + of_bool R5 + of_bool R6 :: nat"
  have "?rank \<le> 7" by (rule of_bool_sum_le7)
  then obtain off where
    "AssignFadDimStride ?rank FadStaticDim (m_offset (m_map dst)) tempdst = Some off"
    using AssignFadDimStride_Some by blast
  then show ?thesis by (simp add: subview_def Let_def)
qed

text \<open>
  C10. A subview of a view of Fad has the source's \<open>m_fad_size\<close> and \<open>m_fad_stride\<close>,
  whatever the slicing arguments; and the assignment of a view of Fad to a destination
  whose \<open>specialize\<close> is \<open>ViewSpecializeSacadoFad\<close> copies these two fields from the
  source.
\<close>

theorem fad_fields_preserved:
  assumes R: "SrcTraits_rank \<le> 7"
  shows "(\<exists>d'. subview R0 R1 R2 R3 R4 R5 R6 FadStaticDim src_rank src tempdst domain_offset dst
                 = Some d' \<and>
              m_fad_size (m_map d') = m_fad_size (m_map src) \<and>
              m_fad_stride (m_map d') = m_fad_stride (m_map src)) \<and>
         (\<exists>d'. assign ViewSpecializeSacadoFad SrcTraits_rank FadStaticDim src_Rank dst vsrc
                 = Some d' \<and>
              m_fad_size (m_map d') = m_fad_size (m_map vsrc) \<and>
              m_fad_stride (m_map d') = m_fad_stride (m_map vsrc))"
proof -
  from R obtain off where
    off: "AssignDim SrcTraits_rank FadStaticDim (m_offset (m_map dst)) (m_offset (m_map vsrc))
            = Some off"
    using AssignDim_Some by blast
  have a: "\<exists>d'. assign ViewSpecializeSacadoFad SrcTraits_rank FadStaticDim src_Rank dst vsrc
                 = Some d' \<and>
              m_fad_size (m_map d') = m_fad_size (m_map vsrc) \<and>
              m_fad_stride (m_map d') = m_fad_stride (m_map vsrc)"
    by (simp add: assign_Some [OF off] assign_fad_size_def)
  from subview_Some [of R0 R1 R2 R3 R4 R5 R6 FadStaticDim src_rank src tempdst domain_offset dst]
  have c: "\<exists>d'. subview R0 R1 R2 R3 R4 R5 R6 FadStaticDim src_rank src tempdst domain_offset dst
                 = Some d' \<and>
              m_fad_size (m_map d') = m_fad_size (m_map src) \<and>
              m_fad_stride (m_map d') = m_fad_stride (m_map src)"
    by blast
  from a c show ?thesis by blast
qed

theorem fad_fields_preserved_witness:
  "(1::nat) \<le> 7 \<and>
   (\<exists>d'. subview True False False False False False False 0 2
      \<lparr>m_track = 7,
     m_map = \<lparr>m_offset =
       \<lparr>m_dim = \<lparr>N0 = 4, N1 = 5, N2 = 3, N3 = 1, N4 = 1, N5 = 1, N6 = 1, N7 = 1\<rparr>,
        m_stride = \<lparr>S0 = 15, S1 = 3, S2 = 1, S3 = 0, S4 = 0, S5 = 0, S6 = 0, S7 = 0\<rparr>\<rparr>,
      m_handle = 4096, m_fad_size = 3, m_fad_stride = 1\<rparr>,
     m_rank = 2\<rparr>
      \<lparr>m_dim = \<lparr>N0 = 4, N1 = 3, N2 = 1, N3 = 1, N4 = 1, N5 = 1, N6 = 1, N7 = 1\<rparr>,
        m_stride = \<lparr>S0 = 15, S1 = 1, S2 = 0, S3 = 0, S4 = 0, S5 = 0, S6 = 0, S7 = 0\<rparr>\<rparr>
      6
      \<lparr>m_track = 0,
     m_map = \<lparr>m_offset =
       \<lparr>m_dim = \<lparr>N0 = 0, N1 = 0, N2 = 0, N3 = 0, N4 = 0, N5 = 0, N6 = 0, N7 = 1\<rparr>,
        m_stride = \<lparr>S0 = 0, S1 = 0, S2 = 0, S3 = 0, S4 = 0, S5 = 0, S6 = 0, S7 = 0\<rparr>\<rparr>,
      m_handle = 0, m_fad_size = 0, m_fad_stride = 0\<rparr>,
     m_rank = 0\<rparr> = Some d' \<and>
     m_fad_size (m_map d') = 3 \<and> m_fad_stride (m_map d') = 1) \<and>
   (\<exists>d'. assign ViewSpecializeSacadoFad 1 0 1
      \<lparr>m_track = 0,
     m_map = \<lparr>m_offset =
       \<lparr>m_dim = \<lparr>N0 = 0, N1 = 0, N2 = 0, N3 = 0, N4 = 0, N5 = 0, N6 = 0, N7 = 1\<rparr>,
        m_stride = \<lparr>S0 = 0, S1 = 0, S2 = 0, S3 = 0, S4 = 0, S5 = 0, S6 = 0, S7 = 0\<rparr>\<rparr>,
      m_handle = 0, m_fad_size = 0, m_fad_stride = 0\<rparr>,
     m_rank = 0\<rparr>
      \<lparr>m_track = 7,
     m_map = \<lparr>m_offset =
       \<lparr>m_dim = \<lparr>N0 = 4, N1 = 3, N2 = 1, N3 = 1, N4 = 1, N5 = 1, N6 = 1, N7 = 1\<rparr>,
        m_stride = \<lparr>S0 = 3, S1 = 1, S2 = 0, S3 = 0, S4 = 0, S5 = 0, S6 = 0, S7 = 0\<rparr>\<rparr>,
      m_handle = 4096, m_fad_size = 3, m_fad_stride = 1\<rparr>\<rparr> = Some d' \<and>
     m_fad_size (m_map d') = 3 \<and> m_fad_stride (m_map d') = 1)"
proof -
  have R: "(1::nat) \<le> 7" by simp
  from fad_fields_preserved [OF R, where ?R0.0 = True and ?R1.0 = False and ?R2.0 = False
      and ?R3.0 = False and ?R4.0 = False and ?R5.0 = False and ?R6.0 = False
      and FadStaticDim = 0 and src_rank = 2 and src_Rank = 1 and domain_offset = 6
      and src = "\<lparr>m_track = 7,
     m_map = \<lparr>m_offset =
       \<lparr>m_dim = \<lparr>N0 = 4, N1 = 5, N2 = 3, N3 = 1, N4 = 1, N5 = 1, N6 = 1, N7 = 1\<rparr>,
        m_stride = \<lparr>S0 = 15, S1 = 3, S2 = 1, S3 = 0, S4 = 0, S5 = 0, S6 = 0, S7 = 0\<rparr>\<rparr>,
      m_handle = 4096, m_fad_size = 3, m_fad_stride = 1\<rparr>,
     m_rank = 2\<rparr>"
      and tempdst = "\<lparr>m_dim = \<lparr>N0 = 4, N1 = 3, N2 = 1, N3 = 1, N4 = 1, N5 = 1, N6 = 1, N7 = 1\<rparr>,
        m_stride = \<lparr>S0 = 15, S1 = 1, S2 = 0, S3 = 0, S4 = 0, S5 = 0, S6 = 0, S7 = 0\<rparr>\<rparr>"
      and dst = "\<lparr>m_track = 0,
     m_map = \<lparr>m_offset =
       \<lparr>m_dim = \<lparr>N0 = 0, N1 = 0, N2 = 0, N3 = 0, N4 = 0, N5 = 0, N6 = 0, N7 = 1\<rparr>,
        m_stride = \<lparr>S0 = 0, S1 = 0, S2 = 0, S3 = 0, S4 = 0, S5 = 0, S6 = 0, S7 = 0\<rparr>\<rparr>,
      m_handle = 0, m_fad_size = 0, m_fad_stride = 0\<rparr>,
     m_rank = 0\<rparr>"
      and vsrc = "\<lparr>m_track = 7,
     m_map = \<lparr>m_offset =
       \<lparr>m_dim = \<lparr>N0 = 4, N1 = 3, N2 = 1, N3 = 1, N4 = 1, N5 = 1, N6 = 1, N7 = 1\<rparr>,
        m_stride = \<lparr>S0 = 3, S1 = 1, S2 = 0, S3 = 0, S4 = 0, S5 = 0, S6 = 0, S7 = 0\<rparr>\<rparr>,
      m_handle = 4096, m_fad_size = 3, m_fad_stride = 1\<rparr>\<rparr>"]
  show ?thesis by simp
qed

subsection \<open>deep_copy between two views\<close>

text \<open>
  C8. When the two data addresses differ, neither the scalar branch nor one of the two
  byte-copy branches applies, and neither execution space can access the other view's
  memory, \<open>deep_copy\<close> raises the run-time exception and the memory at that point is the
  memory it was called with: no copy was made. In every other case it returns normally, so
  (the byte copy and the remap being total) this is its only run-time failure.
\<close>

theorem deep_copy_failure:
  "(data dst \<noteq> data src \<and> \<not> (rank src = 0 \<and> rank dst = 0) \<and>
    \<not> bytewise_left_right dst src \<and> \<not> bytewise_stride dst src \<and>
    \<not> V (execution_space_memory_space (traits dst)) (memory_space (traits src)) \<and>
    \<not> V (execution_space_memory_space (traits src)) (memory_space (traits dst))
    \<longrightarrow> deep_copy V DeepCopy DynRankViewRemap dst src mem =
          Inl (runtime_exception
                 ''deep_copy given views that would require a temporary allocation'', mem)) \<and>
   (\<not> (data dst \<noteq> data src \<and> \<not> (rank src = 0 \<and> rank dst = 0) \<and>
    \<not> bytewise_left_right dst src \<and> \<not> bytewise_stride dst src \<and>
    \<not> V (execution_space_memory_space (traits dst)) (memory_space (traits src)) \<and>
    \<not> V (execution_space_memory_space (traits src)) (memory_space (traits dst)))
    \<longrightarrow> (\<exists>mem'. deep_copy V DeepCopy DynRankViewRemap dst src mem = Inr mem'))"
  by (auto simp add: deep_copy_def Let_def)

text \<open>
  The witness: a host view and a device view of different layouts, with an access trait that
  only lets an execution space into its own memory space, fail; the same destination with a
  source in host memory is remapped.
\<close>

theorem deep_copy_failure_witness:
  "deep_copy (\<lambda>a b. a = b) (\<lambda>ds ss d s n m. Suc m) (\<lambda>d s e m. Suc (Suc m))
     \<lparr>traits =
        \<lparr>value_type = Vtype False ''Fad'', array_layout = Layout_Right, memory_space = ''HostSpace'',
         execution_space = ''Serial'', execution_space_memory_space = ''HostSpace'',
         sizeof_value_type = 32, sizeof_value_type_value_type = 8\<rparr>,
      data = 4096, rank = 2, span = 48,
      dims = \<lparr>N0 = 4, N1 = 4, N2 = 1, N3 = 1, N4 = 1, N5 = 1, N6 = 1, N7 = 3\<rparr>,
      strides = \<lparr>S0 = 12, S1 = 3, S2 = 0, S3 = 0, S4 = 0, S5 = 0, S6 = 0, S7 = 1\<rparr>\<rparr>
     \<lparr>traits =
        \<lparr>value_type = Vtype False ''Fad'', array_layout = Layout_Left, memory_space = ''CudaSpace'',
         execution_space = ''Cuda'', execution_space_memory_space = ''CudaSpace'',
         sizeof_value_type = 32, sizeof_value_type_value_type = 8\<rparr>,
      data = 8192, rank = 2, span = 48,
      dims = \<lparr>N0 = 4, N1 = 4, N2 = 1, N3 = 1, N4 = 1, N5 = 1, N6 = 1, N7 = 3\<rparr>,
      strides = \<lparr>S0 = 1, S1 = 4, S2 = 0, S3 = 0, S4 = 0, S5 = 0, S6 = 0, S7 = 16\<rparr>\<rparr>
     (0::nat) =
    Inl (runtime_exception
           ''deep_copy given views that would require a temporary allocation'', 0) \<and>
   (\<exists>mem'. deep_copy (\<lambda>a b. a = b) (\<lambda>ds ss d s n m. Suc m) (\<lambda>d s e m. Suc (Suc m))
     \<lparr>traits =
        \<lparr>value_type = Vtype False ''Fad'', array_layout = Layout_Right, memory_space = ''HostSpace'',
         execution_space = ''Serial'', execution_space_memory_space = ''HostSpace'',
         sizeof_value_type = 32, sizeof_value_type_value_type = 8\<rparr>,
      data = 4096, rank = 2, span = 48,
      dims = \<lparr>N0 = 4, N1 = 4, N2 = 1, N3 = 1, N4 = 1, N5 = 1, N6 = 1, N7 = 3\<rparr>,
      strides = \<lparr>S0 = 12, S1 = 3, S2 = 0, S3 = 0, S4 = 0, S5 = 0, S6 = 0, S7 = 1\<rparr>\<rparr>
     \<lparr>traits =
        \<lparr>value_type = Vtype False ''Fad'', array_layout = Layout_Left, memory_space = ''HostSpace'',
         execution_space = ''Serial'', execution_space_memory_space = ''HostSpace'',
         sizeof_value_type = 32, sizeof_value_type_value_type = 8\<rparr>,
      data = 8192, rank = 2, span = 48,
      dims = \<lparr>N0 = 4, N1 = 4, N2 = 1, N3 = 1, N4 = 1, N5 = 1, N6 = 1, N7 = 3\<rparr>,
      strides = \<lparr>S0 = 1, S1 = 4, S2 = 0, S3 = 0, S4 = 0, S5 = 0, S6 = 0, S7 = 16\<rparr>\<rparr>
     (0::nat) = Inr mem')"
proof -
  from deep_copy_failure [where V = "\<lambda>a b. a = b" and DeepCopy = "\<lambda>ds ss d s n m. Suc m"
      and DynRankViewRemap = "\<lambda>d s e m. Suc (Suc m)" and mem = "0::nat"
      and dst = "\<lparr>traits =
        \<lparr>value_type = Vtype False ''Fad'', array_layout = Layout_Right, memory_space = ''HostSpace'',
         execution_space = ''Serial'', execution_space_memory_space = ''HostSpace'',
         sizeof_value_type = 32, sizeof_value_type_value_type = 8\<rparr>,
      data = 4096, rank = 2, span = 48,
      dims = \<lparr>N0 = 4, N1 = 4, N2 = 1, N3 = 1, N4 = 1, N5 = 1, N6 = 1, N7 = 3\<rparr>,
      strides = \<lparr>S0 = 12, S1 = 3, S2 = 0, S3 = 0, S4 = 0, S5 = 0, S6 = 0, S7 = 1\<rparr>\<rparr>"
      and src = "\<lparr>traits =
        \<lparr>value_type = Vtype False ''Fad'', array_layout = Layout_Left, memory_space = ''CudaSpace'',
         execution_space = ''Cuda'', execution_space_memory_space = ''CudaSpace'',
         sizeof_value_type = 32, sizeof_value_type_value_type = 8\<rparr>,
      data = 8192, rank = 2, span = 48,
      dims = \<lparr>N0 = 4, N1 = 4, N2 = 1, N3 = 1, N4 = 1, N5 = 1, N6 = 1, N7 = 3\<rparr>,
      strides = \<lparr>S0 = 1, S1 = 4, S2 = 0, S3 = 0, S4 = 0, S5 = 0, S6 = 0, S7 = 16\<rparr>\<rparr>"]
  have 1: "deep_copy (\<lambda>a b. a = b) (\<lambda>ds ss d s n m. Suc m) (\<lambda>d s e m. Suc (Suc m))
     \<lparr>traits =
        \<lparr>value_type = Vtype False ''Fad'', array_layout = Layout_Right, memory_space = ''HostSpace'',
         execution_space = ''Serial'', execution_space_memory_space = ''HostSpace'',
         sizeof_value_type = 32, sizeof_value_type_value_type = 8\<rparr>,
      data = 4096, rank = 2, span = 48,
      dims = \<lparr>N0 = 4, N1 = 4, N2 = 1, N3 = 1, N4 = 1, N5 = 1, N6 = 1, N7 = 3\<rparr>,
      strides = \<lparr>S0 = 12, S1 = 3, S2 = 0, S3 = 0, S4 = 0, S5 = 0, S6 = 0, S7 = 1\<rparr>\<rparr>
     \<lparr>traits =
        \<lparr>value_type = Vtype False ''Fad'', array_layout = Layout_Left, memory_space = ''CudaSpace'',
         execution_space = ''Cuda'', execution_space_memory_space = ''CudaSpace'',
         sizeof_value_type = 32, sizeof_value_type_value_type = 8\<rparr>,
      data = 8192, rank = 2, span = 48,
      dims = \<lparr>N0 = 4, N1 = 4, N2 = 1, N3 = 1, N4 = 1, N5 = 1, N6 = 1, N7 = 3\<rparr>,
      strides = \<lparr>S0 = 1, S1 = 4, S2 = 0, S3 = 0, S4 = 0, S5 = 0, S6 = 0, S7 = 16\<rparr>\<rparr>
     (0::nat) =
    Inl (runtime_exception
           ''deep_copy given views that would require a temporary allocation'', 0)"
    by (simp add: bytewise_left_right_def bytewise_stride_def non_const_def)
  from deep_copy_failure [where V = "\<lambda>a b. a = b" and DeepCopy = "\<lambda>ds ss d s n m. Suc m"
      and DynRankViewRemap = "\<lambda>d s e m. Suc (Suc m)" and mem = "0::nat"
      and dst = "\<lparr>traits =
        \<lparr>value_type = Vtype False ''Fad'', array_layout = Layout_Right, memory_space = ''HostSpace'',
         execution_space = ''Serial'', execution_space_memory_space = ''HostSpace'',
         sizeof_value_type = 32, sizeof_value_type_value_type = 8\<rparr>,
      data = 4096, rank = 2, span = 48,
      dims = \<lparr>N0 = 4, N1 = 4, N2 = 1, N3 = 1, N4 = 1, N5 = 1, N6 = 1, N7 = 3\<rparr>,
      strides = \<lparr>S0 = 12, S1 = 3, S2 = 0, S3 = 0, S4 = 0, S5 = 0, S6 = 0, S7 = 1\<rparr>\<rparr>"
      and src = "\<lparr>traits =
        \<lparr>value_type = Vtype False ''Fad'', array_layout = Layout_Left, memory_space = ''HostSpace'',
         execution_space = ''Serial'', execution_space_memory_space = ''HostSpace'',
         sizeof_value_type = 32, sizeof_value_type_value_type = 8\<rparr>,
      data = 8192, rank = 2, span = 48,
      dims = \<lparr>N0 = 4, N1 = 4, N2 = 1, N3 = 1, N4 = 1, N5 = 1, N6 = 1, N7 = 3\<rparr>,
      strides = \<lparr>S0 = 1, S1 = 4, S2 = 0, S3 = 0, S4 = 0, S5 = 0, S6 = 0, S7 = 16\<rparr>\<rparr>"]
  have 2: "\<exists>mem'. deep_copy (\<lambda>a b. a = b) (\<lambda>ds ss d s n m. Suc m) (\<lambda>d s e m. Suc (Suc m))
     \<lparr>traits =
        \<lparr>value_type = Vtype False ''Fad'', array_layout = Layout_Right, memory_space = ''HostSpace'',
         execution_space = ''Serial'', execution_space_memory_space = ''HostSpace'',
         sizeof_value_type = 32, sizeof_value_type_value_type = 8\<rparr>,
      data = 4096, rank = 2, span = 48,
      dims = \<lparr>N0 = 4, N1 = 4, N2 = 1, N3 = 1, N4 = 1, N5 = 1, N6 = 1, N7 = 3\<rparr>,
      strides = \<lparr>S0 = 12, S1 = 3, S2 = 0, S3 = 0, S4 = 0, S5 = 0, S6 = 0, S7 = 1\<rparr>\<rparr>
     \<lparr>traits =
        \<lparr>value_type = Vtype False ''Fad'', array_layout = Layout_Left, memory_space = ''HostSpace'',
         execution_space = ''Serial'', execution_space_memory_space = ''HostSpace'',
         sizeof_value_type = 32, sizeof_value_type_value_type = 8\<rparr>,
      data = 8192, rank = 2, span = 48,
      dims = \<lparr>N0 = 4, N1 = 4, N2 = 1, N3 = 1, N4 = 1, N5 = 1, N6 = 1, N7 = 3\<rparr>,
      strides = \<lparr>S0 = 1, S1 = 4, S2 = 0, S3 = 0, S4 = 0, S5 = 0, S6 = 0, S7 = 16\<rparr>\<rparr>
     (0::nat) = Inr mem'"
    by (simp add: bytewise_left_right_def bytewise_stride_def non_const_def)
  from 1 2 show ?thesis by blast
qed

subsection \<open>createLayout for LayoutStride\<close>

text \<open>
  The strided overload passes the eight strides of its argument to the constructor and
  updates only the dimension array afterwards: the strides of the result are those of the
  argument, slot by slot.
\<close>

lemma createLayout_stride_stride:
  assumes "length (stride layout) = 8"
  shows "stride (createLayout_stride layout) = stride layout"
proof -
  from assms obtain a0 a1 a2 a3 a4 a5 a6 a7
    where ds: "stride layout = [a0, a1, a2, a3, a4, a5, a6, a7]"
    by (rule length8E)
  show ?thesis
    by (simp add: createLayout_stride_def LayoutStride_ctor_def Let_def ds)
qed

text \<open>
  C4 does not hold of the code. For extents \<open>4, 3\<close> with strides \<open>3, 1\<close> the Fad slot
  is slot 1: its extent 3 is moved to dimension slot 7, but its stride 1 stays in stride
  slot 1, and stride slot 7 keeps the 0 it was given.
\<close>

theorem createLayout_stride_keeps_strides:
  "createLayout_stride
     \<lparr>dimension = [4, 3, unspecified, unspecified, unspecified, unspecified, unspecified, unspecified],
      stride = [3, 1, 0, 0, 0, 0, 0, 0]\<rparr> =
     \<lparr>dimension = [4, 1, 1, 1, 1, 1, 1, 3], stride = [3, 1, 0, 0, 0, 0, 0, 0]\<rparr>"
  by (simp add: createLayout_stride_def LayoutStride_ctor_def computeRank_layout_def
        computeRank_def unspecified_def Let_def)

end
